theory Spec2Isabelle
  imports Main "HOL-Library.Word"
begin

unbundle bit_operations_syntax

section \<open>TenantInfo (fdbrpc/TenantInfo.h)\<close>

text \<open>
  The struct \<^verbatim>\<open>TenantInfo\<close>. The tenant id is an \<^verbatim>\<open>int64_t\<close>, modelled as a 64-bit
  word; \<^verbatim>\<open>StringRef\<close> is a byte string. The \<^verbatim>\<open>Arena\<close> only owns the memory of the prefix
  and has no counterpart here.
\<close>

type_synonym int64_t = "64 word"
type_synonym byte = "8 word"

record TenantInfo =
  tenantId :: int64_t
  prefix :: "byte list option"
  token :: "string option"
  trusted :: bool
  tenantAuthorized :: bool

definition INVALID_TENANT :: int64_t where
  "INVALID_TENANT = - 1"

definition isAuthorized :: "TenantInfo \<Rightarrow> bool" where
  "isAuthorized ti = (trusted ti \<or> tenantAuthorized ti)"

definition hasTenant :: "TenantInfo \<Rightarrow> bool" where
  "hasTenant ti = (tenantId ti \<noteq> INVALID_TENANT)"

text \<open>
  Modelled from the spec: \<^verbatim>\<open>bigEndian64\<close> (flow/Platform.h) is not part of the sources at
  hand. The prefix is the 8-byte big-endian encoding of the id, which on the little-endian
  hosts the program runs on means that \<^verbatim>\<open>bigEndian64\<close> reverses the eight bytes of
  its argument.
\<close>

definition bigEndian64 :: "int64_t \<Rightarrow> int64_t" where
  "bigEndian64 x =
     (push_bit 56 (take_bit 8 x)
      OR push_bit 48 (take_bit 8 (drop_bit 8 x))
      OR push_bit 40 (take_bit 8 (drop_bit 16 x))
      OR push_bit 32 (take_bit 8 (drop_bit 24 x))
      OR push_bit 24 (take_bit 8 (drop_bit 32 x))
      OR push_bit 16 (take_bit 8 (drop_bit 40 x))
      OR push_bit 8 (take_bit 8 (drop_bit 48 x))
      OR take_bit 8 (drop_bit 56 x))"

text \<open>
  \<^verbatim>\<open>reinterpret_cast<const uint8_t*>(&swapped)\<close> with length \<^verbatim>\<open>sizeof(id)\<close>: the eight
  bytes of the object in address order, least significant byte first on a little-endian
  host.
\<close>

definition object_bytes :: "int64_t \<Rightarrow> byte list" where
  "object_bytes x = map (\<lambda>k. ucast (drop_bit (8 * k) x)) [0..<8]"

definition idToPrefix :: "int64_t \<Rightarrow> byte list" where
  "idToPrefix id' = (let swapped = bigEndian64 id' in object_bytes swapped)"

text \<open>The default constructor and the constructor from an id and a token.\<close>

definition TenantInfo_default :: TenantInfo where
  "TenantInfo_default =
     \<lparr>tenantId = INVALID_TENANT, prefix = None, token = None,
      trusted = False, tenantAuthorized = False\<rparr>"

definition TenantInfo_init :: "int64_t \<Rightarrow> string option \<Rightarrow> TenantInfo" where
  "TenantInfo_init tid tok =
     (let ti = \<lparr>tenantId = tid, prefix = None, token = tok,
                trusted = False, tenantAuthorized = False\<rparr>
      in if tid \<noteq> INVALID_TENANT then ti\<lparr>prefix := Some (idToPrefix tid)\<rparr> else ti)"

text \<open>
  The deserialisation hook of \<^verbatim>\<open>serializable_traits<TenantInfo>\<close>. The knob
  \<^verbatim>\<open>ALLOW_TOKENLESS_TENANT_ACCESS\<close>, the token cache's \<^verbatim>\<open>validate\<close> and the transport's
  \<^verbatim>\<open>currentDeliveryPeerIsTrusted\<close> live outside the sources at hand and are parameters.
\<close>

definition deserialize ::
  "bool \<Rightarrow> (int64_t \<Rightarrow> string \<Rightarrow> bool) \<Rightarrow> bool \<Rightarrow> int64_t \<Rightarrow> string option \<Rightarrow> TenantInfo"
where
  "deserialize ALLOW_TOKENLESS_TENANT_ACCESS validate currentDeliveryPeerIsTrusted tid tok =
     (let v = \<lparr>tenantId = tid, prefix = None, token = tok,
               trusted = False, tenantAuthorized = False\<rparr>;
          authorized0 = ALLOW_TOKENLESS_TENANT_ACCESS;
          authorized =
            (if \<not> authorized0 \<and> tenantId v \<noteq> INVALID_TENANT
             then (case token v of None \<Rightarrow> authorized0
                   | Some tk \<Rightarrow> validate (tenantId v) tk)
             else authorized0);
          v = v\<lparr>trusted := currentDeliveryPeerIsTrusted\<rparr>;
          v = v\<lparr>tenantAuthorized := authorized\<rparr>
      in if hasTenant v then v\<lparr>prefix := Some (idToPrefix (tenantId v))\<rparr> else v)"

text \<open>
  Two requests as a server with \<^verbatim>\<open>ALLOW_TOKENLESS_TENANT_ACCESS\<close> set deserialises them from
  a peer that is not trusted: for tenant 5 with a token that the token cache refuses, and
  for tenant 5 with no token.
\<close>

definition example_refused_token :: TenantInfo where
  "example_refused_token = deserialize True (\<lambda>tid tk. False) False 5 (Some ''bad'')"

definition example_tokenless :: TenantInfo where
  "example_tokenless = deserialize True (\<lambda>tid tk. False) False 5 None"

text \<open>
  The big-endian encoding, as the words say it: eight bytes, the most significant first.
\<close>

definition bigEndianBytes64 :: "int64_t \<Rightarrow> byte list" where
  "bigEndianBytes64 x = map (\<lambda>k. ucast (drop_bit (8 * (7 - k)) x)) [0..<8]"

definition fromBigEndianBytes :: "byte list \<Rightarrow> int64_t" where
  "fromBigEndianBytes bs = foldl (\<lambda>acc b. push_bit 8 acc OR ucast b) 0 bs"


section \<open>MetaclusterRestoreWorkload (fdbserver/workloads/MetaclusterRestoreWorkload.actor.cpp)\<close>

subsection \<open>The Reference Model\<close>

text \<open>
  Names are strings. Tenant ids are \<^verbatim>\<open>int64_t\<close> values on which the workload does no
  arithmetic; they are integers here, so that a \<^verbatim>\<open>std::set<int64_t>\<close> is walked in
  ascending order. A \<^verbatim>\<open>std::map\<close> is a partial function, a \<^verbatim>\<open>std::set\<close> a set. Fields
  that several structs share are prefixed with the struct's initials (\<open>dc\<close> for
  \<^verbatim>\<open>DataClusterData\<close>, \<open>td\<close> for \<^verbatim>\<open>TenantData\<close>, \<open>tg\<close> for \<^verbatim>\<open>TenantGroupData\<close>,
  \<open>tme\<close> for \<^verbatim>\<open>TenantMapEntry\<close>). The \<^verbatim>\<open>Database\<close> handle of a data cluster has no
  counterpart: a cluster is addressed by its name.
\<close>

type_synonym TenantName = string
type_synonym ClusterName = string
type_synonym TenantGroupName = string
type_synonym tenant_id = int

record DataClusterData =
  dc_tenants :: "tenant_id set"
  dc_tenantGroups :: "TenantGroupName set"
  restored :: bool
  restoreHasMessages :: bool

definition DataClusterData_default :: DataClusterData where
  "DataClusterData_default =
     \<lparr>dc_tenants = {}, dc_tenantGroups = {}, restored = False, restoreHasMessages = False\<rparr>"

datatype AccessTime = NONE | BEFORE_BACKUP | DURING_BACKUP | AFTER_BACKUP

text \<open>The order of the enumerators, which \<^verbatim>\<open><=\<close> on the \<^verbatim>\<open>enum class\<close> compares.\<close>

fun AccessTime_rank :: "AccessTime \<Rightarrow> nat" where
  "AccessTime_rank NONE = 0"
| "AccessTime_rank BEFORE_BACKUP = 1"
| "AccessTime_rank DURING_BACKUP = 2"
| "AccessTime_rank AFTER_BACKUP = 3"

definition AccessTime_le :: "AccessTime \<Rightarrow> AccessTime \<Rightarrow> bool" where
  "AccessTime_le a b = (AccessTime_rank a \<le> AccessTime_rank b)"

record TenantData =
  td_name :: TenantName
  td_cluster :: ClusterName
  td_tenantGroup :: "TenantGroupName option"
  createTime :: AccessTime
  renameTime :: AccessTime
  configureTime :: AccessTime

definition TenantData_default :: TenantData where
  "TenantData_default =
     \<lparr>td_name = [], td_cluster = [], td_tenantGroup = None,
      createTime = BEFORE_BACKUP, renameTime = NONE, configureTime = NONE\<rparr>"

definition TenantData_init ::
  "TenantName \<Rightarrow> ClusterName \<Rightarrow> TenantGroupName option \<Rightarrow> AccessTime \<Rightarrow> TenantData" where
  "TenantData_init name cluster tenantGroup' createTime' =
     \<lparr>td_name = name, td_cluster = cluster, td_tenantGroup = tenantGroup',
      createTime = createTime', renameTime = NONE, configureTime = NONE\<rparr>"

record TenantGroupData =
  tg_cluster :: ClusterName
  tg_tenants :: "tenant_id set"

definition TenantGroupData_default :: TenantGroupData where
  "TenantGroupData_default = \<lparr>tg_cluster = [], tg_tenants = {}\<rparr>"

text \<open>
  Modelled from the spec: \<^verbatim>\<open>TenantMapEntry\<close> and \<^verbatim>\<open>TenantState\<close> (fdbclient) are not part
  of the sources at hand. A tenant has an id, a name, an optional group, an assigned data
  cluster and a lifecycle state among READY and ERROR; the entry carries the fields the
  workload reads, and two entries are equal when all of them are. \<open>OTHER_STATE\<close> stands
  for any state that is neither READY nor ERROR.
\<close>

datatype TenantState = READY | ERROR | OTHER_STATE

record TenantMapEntry =
  tme_id :: tenant_id
  tenantName :: TenantName
  tenantGroup :: "TenantGroupName option"
  assignedCluster :: "ClusterName option"
  tenantState :: TenantState
  tme_error :: string

record MetaclusterRestoreWorkload =
  dataDbs :: "ClusterName \<rightharpoonup> DataClusterData"
  dataDbIndex :: "ClusterName list"
  createdTenants :: "tenant_id \<rightharpoonup> TenantData"
  tenantNameIndex :: "TenantName \<rightharpoonup> tenant_id"
  tenantGroups :: "TenantGroupName \<rightharpoonup> TenantGroupData"
  deletedTenants :: "tenant_id set"
  managementTenantsBeforeRestore :: "(tenant_id \<times> TenantMapEntry) list"
  initialTenants :: int
  maxTenants :: int
  maxTenantGroups :: int
  tenantGroupCapacity :: int
  recoverManagementCluster :: bool
  recoverDataClusters :: bool
  backupComplete :: bool

text \<open>
  Errors are values. \<^verbatim>\<open>ASSERT\<close> throws \<^verbatim>\<open>internal_error\<close>; reading through an end
  iterator is undefined behaviour and is reported as a value of its own.
\<close>

datatype error =
  internal_error
  | tenant_already_exists
  | invalid_tenant_configuration
  | cluster_not_found
  | metacluster_no_capacity
  | cluster_no_capacity
  | other_error nat
  | undefined_behavior

text \<open>
  \<^verbatim>\<open>std::map::operator[]\<close> inserts a default-constructed value for a missing key; these
  are the values it then refers to.
\<close>

definition dataDbs_at :: "MetaclusterRestoreWorkload \<Rightarrow> ClusterName \<Rightarrow> DataClusterData" where
  "dataDbs_at self c = (case dataDbs self c of None \<Rightarrow> DataClusterData_default | Some d \<Rightarrow> d)"

definition tenantGroups_at :: "MetaclusterRestoreWorkload \<Rightarrow> TenantGroupName \<Rightarrow> TenantGroupData" where
  "tenantGroups_at self g = (case tenantGroups self g of None \<Rightarrow> TenantGroupData_default | Some gd \<Rightarrow> gd)"

definition createdTenants_at :: "MetaclusterRestoreWorkload \<Rightarrow> tenant_id \<Rightarrow> TenantData" where
  "createdTenants_at self t = (case createdTenants self t of None \<Rightarrow> TenantData_default | Some td \<Rightarrow> td)"

subsection \<open>removeTrackedTenant\<close>

definition removeTrackedTenant :: "tenant_id \<Rightarrow> MetaclusterRestoreWorkload \<Rightarrow> MetaclusterRestoreWorkload" where
  "removeTrackedTenant tid self =
     (case createdTenants self tid of
        None \<Rightarrow> self
      | Some itr \<Rightarrow>
          let self1 = self\<lparr>deletedTenants := insert tid (deletedTenants self)\<rparr>;
              d = dataDbs_at self1 (td_cluster itr);
              self2 = self1\<lparr>dataDbs := (dataDbs self1)
                        (td_cluster itr \<mapsto> d\<lparr>dc_tenants := dc_tenants d - {tid}\<rparr>)\<rparr>;
              self3 = (case td_tenantGroup itr of
                         None \<Rightarrow> self2
                       | Some g \<Rightarrow>
                           let gd = tenantGroups_at self2 g
                           in self2\<lparr>tenantGroups := (tenantGroups self2)
                                (g \<mapsto> gd\<lparr>tg_tenants := tg_tenants gd - {tid}\<rparr>)\<rparr>)
          in self3\<lparr>createdTenants := (createdTenants self3)(tid := None)\<rparr>)"

subsection \<open>Collision resolution\<close>

text \<open>
  The deletions that the resolver starts. Each is a call into an interface outside the
  sources at hand; the resolver collects them in \<^verbatim>\<open>deleteFutures\<close> and waits for all.
  \<^item> \<open>MetaclusterAPI_deleteTenant t\<close>: \<^verbatim>\<open>MetaclusterAPI::deleteTenant(managementDb, t)\<close>,
    deletion of tenant \<open>t\<close> in the management cluster;
  \<^item> \<open>TenantAPI_deleteTenant n t\<close>: \<^verbatim>\<open>TenantAPI::deleteTenant(dataDb, n, t)\<close>, deletion
    of tenant \<open>t\<close> named \<open>n\<close> on the data cluster;
  \<^item> \<open>DataClusterTransaction ts\<close>: one transaction on the data cluster, with access to the
    system keys, that calls \<^verbatim>\<open>TenantAPI::deleteTenantTransaction(tr, t)\<close> for each \<open>t\<close> of
    \<open>ts\<close>.
\<close>

datatype delete_request =
  MetaclusterAPI_deleteTenant tenant_id
  | TenantAPI_deleteTenant TenantName tenant_id
  | DataClusterTransaction "tenant_id list"

text \<open>The tenants that a request deletes, in the order in which it names them.\<close>

fun requestTenants :: "delete_request \<Rightarrow> tenant_id list" where
  "requestTenants (MetaclusterAPI_deleteTenant t) = [t]"
| "requestTenants (TenantAPI_deleteTenant n t) = [t]"
| "requestTenants (DataClusterTransaction ts) = ts"

text \<open>
  \<^verbatim>\<open>TenantCollisions\<close> maps a tenant name to the pair of the data cluster's id and the
  management cluster's id; the list is the map in the order the loop walks it.
\<close>

type_synonym TenantCollisions = "(TenantName \<times> tenant_id \<times> tenant_id) list"
type_synonym GroupCollisions = "TenantGroupName list"

fun resolveTenantCollisions_loop ::
  "MetaclusterRestoreWorkload \<Rightarrow> TenantCollisions \<Rightarrow> delete_request list
   \<Rightarrow> MetaclusterRestoreWorkload \<times> delete_request list" where
  "resolveTenantCollisions_loop self [] deleteFutures = (self, deleteFutures)"
| "resolveTenantCollisions_loop self ((name, first, second) # rest) deleteFutures =
     (if createdTenants self first \<noteq> None
      then resolveTenantCollisions_loop (removeTrackedTenant second self) rest
             (deleteFutures @ [MetaclusterAPI_deleteTenant second])
      else resolveTenantCollisions_loop (removeTrackedTenant first self) rest
             (deleteFutures @ [TenantAPI_deleteTenant name first]))"

definition resolveTenantCollisions ::
  "MetaclusterRestoreWorkload \<Rightarrow> TenantCollisions
   \<Rightarrow> MetaclusterRestoreWorkload \<times> delete_request list" where
  "resolveTenantCollisions self tenantCollisions =
     resolveTenantCollisions_loop self tenantCollisions []"






subsection \<open>The interfaces the workload calls\<close>

text \<open>
  The metacluster and tenant interfaces, the backup agent and the clusters themselves are
  outside the sources at hand. They are parameters: a record of operations on a state
  \<open>'w\<close> of all the clusters. An operation that can throw returns the error next to the
  new state.
  \<^item> \<open>api_clearDatabase c\<close>: the transaction of \<^verbatim>\<open>restoreDataCluster\<close> that clears the backup
    ranges of data cluster \<open>c\<close>;
  \<^item> \<open>api_backupRestore c url\<close>: \<^verbatim>\<open>backupAgent.restore\<close> into data cluster \<open>c\<close>;
  \<^item> \<open>api_restoreCluster c applyManagementClusterUpdates dryRun forceJoinNewMetacluster
    messages\<close>: \<^verbatim>\<open>MetaclusterAPI::restoreCluster\<close>; \<open>messages\<close> is the vector that the call
    gets through a pointer, and the vector it leaves behind is returned, also when the call
    throws;
  \<^item> \<open>api_removeCluster c\<close>: \<^verbatim>\<open>MetaclusterAPI::removeCluster\<close> on the management cluster with
    \<^verbatim>\<open>ClusterType::METACLUSTER_MANAGEMENT\<close>;
  \<^item> \<open>api_tenantMap c\<close>: the content of \<^verbatim>\<open>TenantMetadata::tenantMap()\<close> of data cluster \<open>c\<close>,
    in key order.
\<close>

record 'w api =
  api_clearDatabase :: "ClusterName \<Rightarrow> 'w \<Rightarrow> error + 'w"
  api_backupRestore :: "ClusterName \<Rightarrow> string \<Rightarrow> 'w \<Rightarrow> error + 'w"
  api_restoreCluster ::
    "ClusterName \<Rightarrow> bool \<Rightarrow> bool \<Rightarrow> bool \<Rightarrow> string list \<Rightarrow> 'w \<Rightarrow> error option \<times> string list \<times> 'w"
  api_removeCluster :: "ClusterName \<Rightarrow> 'w \<Rightarrow> error option \<times> 'w"
  api_tenantMap :: "ClusterName \<Rightarrow> 'w \<Rightarrow> (tenant_id \<times> TenantMapEntry) list"

subsection \<open>restoreDataCluster\<close>

text \<open>
  \<open>coinflip\<close> is the outcome of \<^verbatim>\<open>deterministicRandom()->coinflip()\<close>. An error of any call
  leaves the actor.
\<close>

definition restoreDataCluster ::
  "'w api \<Rightarrow> ClusterName \<Rightarrow> string \<Rightarrow> bool \<Rightarrow> bool \<Rightarrow> bool
   \<Rightarrow> MetaclusterRestoreWorkload \<Rightarrow> 'w \<Rightarrow> error + MetaclusterRestoreWorkload \<times> 'w" where
  "restoreDataCluster api clusterName backupUrl addToMetacluster forceJoinNewMetacluster coinflip self w =
     (case api_clearDatabase api clusterName w of
        Inl e \<Rightarrow> Inl e
      | Inr w1 \<Rightarrow>
     (case api_backupRestore api clusterName backupUrl w1 of
        Inl e \<Rightarrow> Inl e
      | Inr w2 \<Rightarrow>
     (let messages = [];
          attached =
            (if addToMetacluster then
               (case (if coinflip then
                        (case api_restoreCluster api clusterName True True forceJoinNewMetacluster
                                messages w2 of
                           (Some e, messages1, w3) \<Rightarrow> Inl e
                         | (None, messages1, w3) \<Rightarrow> Inr ([], w3))
                      else Inr (messages, w2)) of
                  Inl e \<Rightarrow> Inl e
                | Inr (messages2, w3) \<Rightarrow>
                    (case api_restoreCluster api clusterName True False forceJoinNewMetacluster
                            messages2 w3 of
                       (Some e, messages3, w4) \<Rightarrow> Inl e
                     | (None, messages3, w4) \<Rightarrow> Inr (messages3, w4)))
             else Inr (messages, w2))
      in case attached of
           Inl e \<Rightarrow> Inl e
         | Inr (messages4, w5) \<Rightarrow>
             let d = dataDbs_at self clusterName;
                 self1 = self\<lparr>dataDbs := (dataDbs self)(clusterName \<mapsto> d\<lparr>restored := True\<rparr>)\<rparr>;
                 d1 = dataDbs_at self1 clusterName;
                 self2 = self1\<lparr>dataDbs := (dataDbs self1)
                           (clusterName \<mapsto> d1\<lparr>restoreHasMessages := (messages4 \<noteq> [])\<rparr>)\<rparr>
             in Inr (self2, w5))))"

subsection \<open>One attempt of restoreManagementCluster\<close>

text \<open>
  \<^verbatim>\<open>getDataClusterTenants\<close> reads at most \<^verbatim>\<open>MAX_TENANTS_PER_CLUSTER + 1\<close> entries of the
  data cluster's tenant map and asserts that there are at most \<^verbatim>\<open>MAX_TENANTS_PER_CLUSTER\<close>.
\<close>

definition getDataClusterTenants ::
  "'w api \<Rightarrow> nat \<Rightarrow> ClusterName \<Rightarrow> 'w \<Rightarrow> error + (tenant_id \<times> TenantMapEntry) list" where
  "getDataClusterTenants api MAX_TENANTS_PER_CLUSTER db w =
     (let results = take (MAX_TENANTS_PER_CLUSTER + 1) (api_tenantMap api db w)
      in if length results \<le> MAX_TENANTS_PER_CLUSTER then Inr results else Inl internal_error)"

text \<open>
  The loop that compares the two snapshots entry by entry, from index \<open>i\<close> on:
  \<^verbatim>\<open>ASSERT_EQ(before[i].first, after[i].first); ASSERT(before[i].second == after[i].second)\<close>.
  It is entered after the sizes have been found equal.
\<close>

function compareDataTenants ::
  "nat \<Rightarrow> (tenant_id \<times> TenantMapEntry) list \<Rightarrow> (tenant_id \<times> TenantMapEntry) list \<Rightarrow> bool" where
  "compareDataTenants i dataTenantsBeforeRestore dataTenantsAfterRestore =
     (if i < length dataTenantsBeforeRestore then
        (if fst (dataTenantsBeforeRestore ! i) \<noteq> fst (dataTenantsAfterRestore ! i) then False
         else if snd (dataTenantsBeforeRestore ! i) \<noteq> snd (dataTenantsAfterRestore ! i) then False
         else compareDataTenants (i + 1) dataTenantsBeforeRestore dataTenantsAfterRestore)
      else True)"
  by pat_completeness auto
termination
  by (relation "measure (\<lambda>(i, b, a). length b - i)") auto

declare compareDataTenants.simps [simp del]

text \<open>
  One pass through the body of \<^verbatim>\<open>while (!completed)\<close>, up to the comparison of the two
  snapshots, in the three parts of the text. \<open>collisions\<close> is the pair of collision sets;
  \<open>coinflip\<close>, \<open>force1\<close> and \<open>force2\<close> are the three coin flips in the order of the text.

  The try block: the optional dry run, after which the message vector is cleared, the
  restore, and the assertion that there are no collisions. It ends with the error thrown,
  if any, the message vector and the state of the clusters.
\<close>

definition restoreManagementCluster_try ::
  "'w api \<Rightarrow> ClusterName \<Rightarrow> TenantCollisions \<times> GroupCollisions \<Rightarrow> bool \<Rightarrow> bool \<Rightarrow> bool
   \<Rightarrow> string list \<Rightarrow> 'w \<Rightarrow> error option \<times> string list \<times> 'w" where
  "restoreManagementCluster_try api clusterName collisions coinflip force1 force2 messages w =
     (case (if coinflip then
              (case api_restoreCluster api clusterName False True force1 messages w of
                 (Some e, messages1, w1) \<Rightarrow> (Some e, messages1, w1)
               | (None, messages1, w1) \<Rightarrow> (None, [], w1))
            else (None, messages, w)) of
        (Some e, messages2, w2) \<Rightarrow> (Some e, messages2, w2)
      | (None, messages2, w2) \<Rightarrow>
          (case api_restoreCluster api clusterName False False force2 messages2 w2 of
             (Some e, messages3, w3) \<Rightarrow> (Some e, messages3, w3)
           | (None, messages3, w3) \<Rightarrow>
               if fst collisions = [] \<and> snd collisions = [] then (None, messages3, w3)
               else (Some internal_error, messages3, w3)))"

text \<open>
  The catch block, applied to the outcome of the try block: without an error the attempt
  is completed; an error that is not due to a collision is thrown again; otherwise the
  partially restored cluster is removed, where \<^verbatim>\<open>cluster_not_found\<close> is tolerated.
\<close>

definition restoreManagementCluster_catch ::
  "'w api \<Rightarrow> ClusterName \<Rightarrow> TenantCollisions \<times> GroupCollisions
   \<Rightarrow> error option \<times> string list \<times> 'w \<Rightarrow> error + bool \<times> string list \<times> 'w" where
  "restoreManagementCluster_catch api clusterName collisions tried =
     (case tried of
        (None, messages, w) \<Rightarrow> Inr (True, messages, w)
      | (Some e, messages, w) \<Rightarrow>
          let failedDueToCollision =
                ((e = tenant_already_exists \<and> fst collisions \<noteq> [])
                 \<or> (e = invalid_tenant_configuration \<and> snd collisions \<noteq> []))
          in if \<not> failedDueToCollision then Inl e
             else (case api_removeCluster api clusterName w of
                     (Some e', w') \<Rightarrow>
                       if e' \<noteq> cluster_not_found then Inl e' else Inr (False, messages, w')
                   | (None, w') \<Rightarrow> Inr (False, messages, w')))"

text \<open>
  The second snapshot and the assertions that compare it with the first:
  \<^verbatim>\<open>ASSERT_EQ\<close> on the sizes, then the loop over the entries.
\<close>

definition restoreManagementCluster_compare ::
  "'w api \<Rightarrow> nat \<Rightarrow> ClusterName \<Rightarrow> (tenant_id \<times> TenantMapEntry) list
   \<Rightarrow> bool \<times> string list \<times> 'w \<Rightarrow> error + bool \<times> string list \<times> 'w" where
  "restoreManagementCluster_compare api K clusterName dataTenantsBeforeRestore caught =
     (case caught of (completed, messages, w) \<Rightarrow>
        (case getDataClusterTenants api K clusterName w of
           Inl e \<Rightarrow> Inl e
         | Inr dataTenantsAfterRestore \<Rightarrow>
             if length dataTenantsBeforeRestore \<noteq> length dataTenantsAfterRestore
             then Inl internal_error
             else if \<not> compareDataTenants 0 dataTenantsBeforeRestore dataTenantsAfterRestore
             then Inl internal_error
             else Inr (completed, messages, w)))"

text \<open>
  The attempt: the first snapshot, the try and catch blocks, the second snapshot and the
  comparison. The result is \<^verbatim>\<open>completed\<close>, the message vector and the state of the
  clusters.
\<close>

definition restoreManagementCluster_attempt ::
  "'w api \<Rightarrow> nat \<Rightarrow> ClusterName \<Rightarrow> TenantCollisions \<times> GroupCollisions \<Rightarrow> bool \<Rightarrow> bool \<Rightarrow> bool
   \<Rightarrow> string list \<Rightarrow> 'w \<Rightarrow> error + bool \<times> string list \<times> 'w" where
  "restoreManagementCluster_attempt api K clusterName collisions coinflip force1 force2 messages w =
     (case getDataClusterTenants api K clusterName w of
        Inl e \<Rightarrow> Inl e
      | Inr dataTenantsBeforeRestore \<Rightarrow>
          (case restoreManagementCluster_catch api clusterName collisions
                  (restoreManagementCluster_try api clusterName collisions coinflip force1 force2
                     messages w) of
             Inl e \<Rightarrow> Inl e
           | Inr caught \<Rightarrow>
               restoreManagementCluster_compare api K clusterName dataTenantsBeforeRestore caught))"

subsection \<open>A record of the calls\<close>

text \<open>
  To speak of the calls a run makes, the interfaces are wrapped: the wrapped operations
  work as before and append each call of \<^verbatim>\<open>restoreCluster\<close>, with the message vector passed
  in, the error thrown if any, and the message vector left behind, to a log kept next to the
  state.
\<close>

datatype restoreCluster_call =
  RestoreCluster ClusterName bool bool bool "string list" "error option" "string list"

fun isDryRun :: "restoreCluster_call \<Rightarrow> bool" where
  "isDryRun (RestoreCluster c applyUpdates dryRun force messagesIn err messagesOut) = dryRun"

definition logged :: "'w api \<Rightarrow> ('w \<times> restoreCluster_call list) api" where
  "logged api =
     \<lparr>api_clearDatabase = (\<lambda>c (w, l). case api_clearDatabase api c w of
                               Inl e \<Rightarrow> Inl e | Inr w' \<Rightarrow> Inr (w', l)),
      api_backupRestore = (\<lambda>c url (w, l). case api_backupRestore api c url w of
                               Inl e \<Rightarrow> Inl e | Inr w' \<Rightarrow> Inr (w', l)),
      api_restoreCluster = (\<lambda>c a d f messages (w, l).
                               case api_restoreCluster api c a d f messages w of
                                 (err, messages', w') \<Rightarrow>
                                   (err, messages', (w', l @ [RestoreCluster c a d f messages err messages']))),
      api_removeCluster = (\<lambda>c (w, l). case api_removeCluster api c w of (err, w') \<Rightarrow> (err, (w', l))),
      api_tenantMap = (\<lambda>c (w, l). api_tenantMap api c w)\<rparr>"

text \<open>
  The \<^verbatim>\<open>restoreCluster\<close> calls of a run of \<^verbatim>\<open>restoreDataCluster\<close> and of an attempt of
  \<^verbatim>\<open>restoreManagementCluster\<close> that ended normally.
\<close>

definition restoreCluster_calls :: "error + 'a \<times> 'w \<times> restoreCluster_call list \<Rightarrow> restoreCluster_call list" where
  "restoreCluster_calls r = (case r of Inl e \<Rightarrow> [] | Inr (x, w, l) \<Rightarrow> l)"

definition attempt_calls ::
  "error + bool \<times> string list \<times> 'w \<times> restoreCluster_call list \<Rightarrow> restoreCluster_call list" where
  "attempt_calls r = (case r of Inl e \<Rightarrow> [] | Inr (completed, messages, w, l) \<Rightarrow> l)"

subsection \<open>The consistency check of a data cluster\<close>

text \<open>
  Modelled from the spec: \<^verbatim>\<open>ClusterType\<close> (fdbclient/Metacluster.h) is not part of the
  sources at hand. A cluster is the management cluster of a metacluster, a data cluster of
  one, or on its own.
\<close>

datatype ClusterType = STANDALONE | METACLUSTER_MANAGEMENT | METACLUSTER_DATA

text \<open>
  The loop of the branch for a cluster that was not restored, over the entries read from
  the cluster's tenant map. \<^verbatim>\<open>self->createdTenants[tenantId]\<close> refers to a
  default-constructed \<^verbatim>\<open>TenantData\<close> for an id that is not tracked; the entry that
  \<^verbatim>\<open>operator[]\<close> adds to the map then is left out, since the check only reports whether an
  assertion failed.
\<close>

fun checkDataCluster_notRestored ::
  "MetaclusterRestoreWorkload \<Rightarrow> ClusterName \<Rightarrow> DataClusterData
   \<Rightarrow> (tenant_id \<times> TenantMapEntry) list \<Rightarrow> error + unit" where
  "checkDataCluster_notRestored self clusterName clusterData [] = Inr ()"
| "checkDataCluster_notRestored self clusterName clusterData ((tid, tenantEntry) # rest) =
     (if tid \<notin> dc_tenants clusterData then Inl internal_error
      else let tenantData = createdTenants_at self tid
           in if td_cluster tenantData \<noteq> clusterName then Inl internal_error
              else if td_tenantGroup tenantData \<noteq> tenantGroup tenantEntry then Inl internal_error
              else if td_name tenantData \<noteq> tenantName tenantEntry then Inl internal_error
              else checkDataCluster_notRestored self clusterName clusterData rest)"

text \<open>
  The first loop of the branch for a restored cluster, over the tenants tracked for the
  cluster; \<open>expectedTenantCount\<close> is the counter.
\<close>

fun checkDataCluster_tracked ::
  "MetaclusterRestoreWorkload \<Rightarrow> ClusterName \<Rightarrow> (tenant_id \<rightharpoonup> TenantMapEntry)
   \<Rightarrow> tenant_id list \<Rightarrow> int \<Rightarrow> error + int" where
  "checkDataCluster_tracked self clusterName tenantMap [] expectedTenantCount =
     Inr expectedTenantCount"
| "checkDataCluster_tracked self clusterName tenantMap (tid # rest) expectedTenantCount =
     (let tenantData = createdTenants_at self tid;
          tenantItr = tenantMap tid
      in if createTime tenantData = BEFORE_BACKUP then
           (case tenantItr of
              None \<Rightarrow> Inl internal_error
            | Some entry \<Rightarrow>
                if td_cluster tenantData \<noteq> clusterName then Inl internal_error
                else if (\<not> recoverManagementCluster self
                         \<or> AccessTime_le (configureTime tenantData) BEFORE_BACKUP)
                        \<and> tenantGroup entry \<noteq> td_tenantGroup tenantData
                then Inl internal_error
                else if (\<not> recoverManagementCluster self
                         \<or> AccessTime_le (renameTime tenantData) BEFORE_BACKUP)
                        \<and> tenantName entry \<noteq> td_name tenantData
                then Inl internal_error
                else checkDataCluster_tracked self clusterName tenantMap rest
                       (expectedTenantCount + 1))
         else if createTime tenantData = AFTER_BACKUP then
           (if tenantItr \<noteq> None then Inl internal_error
            else checkDataCluster_tracked self clusterName tenantMap rest expectedTenantCount)
         else if tenantItr \<noteq> None then
           checkDataCluster_tracked self clusterName tenantMap rest (expectedTenantCount + 1)
         else checkDataCluster_tracked self clusterName tenantMap rest expectedTenantCount)"

text \<open>
  The second loop, over the ids of the cluster's tenant map, for deleted tenants that
  reappeared; \<open>unexpectedTenants\<close> is the counter.
\<close>

fun checkDataCluster_unexpected ::
  "MetaclusterRestoreWorkload \<Rightarrow> DataClusterData \<Rightarrow> tenant_id list \<Rightarrow> int \<Rightarrow> error + int" where
  "checkDataCluster_unexpected self clusterData [] unexpectedTenants = Inr unexpectedTenants"
| "checkDataCluster_unexpected self clusterData (tid # rest) unexpectedTenants =
     (if tid \<notin> dc_tenants clusterData then
        (if \<not> recoverManagementCluster self then Inl internal_error
         else if tid \<notin> deletedTenants self then Inl internal_error
         else checkDataCluster_unexpected self clusterData rest (unexpectedTenants + 1))
      else checkDataCluster_unexpected self clusterData rest unexpectedTenants)"

text \<open>
  \<^verbatim>\<open>checkDataCluster\<close>. What the transaction reads is a parameter: the cluster type of the
  metacluster registration, if there is one, and the content of the cluster's tenant map,
  of which at most \<^verbatim>\<open>MAX_TENANTS_PER_CLUSTER + 1\<close> entries are read. The \<^verbatim>\<open>std::map\<close> built
  from the entries keeps the first entry of an id and is walked in the order of the ids; a
  \<^verbatim>\<open>std::set\<close> is walked in ascending order. The counters are compared as integers: the
  number of unexpected tenants never exceeds the size of the map.
\<close>

definition checkDataCluster ::
  "nat \<Rightarrow> MetaclusterRestoreWorkload \<Rightarrow> ClusterName \<Rightarrow> DataClusterData \<Rightarrow> ClusterType option
   \<Rightarrow> (tenant_id \<times> TenantMapEntry) list \<Rightarrow> error + unit" where
  "checkDataCluster MAX_TENANTS_PER_CLUSTER self clusterName clusterData metaclusterRegistration
       tenantMapContent =
     (let results = take (MAX_TENANTS_PER_CLUSTER + 1) tenantMapContent
      in if \<not> length results \<le> MAX_TENANTS_PER_CLUSTER then Inl internal_error
         else if metaclusterRegistration \<noteq> Some METACLUSTER_DATA then Inl internal_error
         else if \<not> restored clusterData then
           (if length results \<noteq> card (dc_tenants clusterData) then Inl internal_error
            else checkDataCluster_notRestored self clusterName clusterData results)
         else
           (let tenantMap = map_of results
            in case checkDataCluster_tracked self clusterName tenantMap
                      (sorted_list_of_set (dc_tenants clusterData)) 0 of
                 Inl e \<Rightarrow> Inl e
               | Inr expectedTenantCount \<Rightarrow>
                   (case checkDataCluster_unexpected self clusterData
                           (sort (remdups (map fst results))) 0 of
                      Inl e \<Rightarrow> Inl e
                    | Inr unexpectedTenants \<Rightarrow>
                        if int (length (remdups (map fst results))) - unexpectedTenants
                           \<noteq> expectedTenantCount
                        then Inl internal_error
                        else Inr ())))"

subsection \<open>The consistency check of the management cluster\<close>

text \<open>
  The first loop of \<^verbatim>\<open>checkTenants\<close>, over the tenants the management cluster had before
  the restore. \<^verbatim>\<open>Optional::get\<close> on an absent assigned cluster fails an assertion.
\<close>

fun checkTenants_beforeRestore ::
  "MetaclusterRestoreWorkload \<Rightarrow> (tenant_id \<rightharpoonup> TenantMapEntry)
   \<Rightarrow> (tenant_id \<times> TenantMapEntry) list \<Rightarrow> error + unit" where
  "checkTenants_beforeRestore self tenantMap [] = Inr ()"
| "checkTenants_beforeRestore self tenantMap ((tid, tenantEntry) # rest) =
     (case tenantMap tid of
        None \<Rightarrow> Inl internal_error
      | Some itr \<Rightarrow>
          (case (if tenantState itr = ERROR then
                   (case assignedCluster itr of
                      None \<Rightarrow> Inl internal_error
                    | Some c \<Rightarrow>
                        if \<not> restored (dataDbs_at self c) then Inl internal_error
                        else Inr (itr\<lparr>tenantState := tenantState tenantEntry, tme_error := []\<rparr>))
                 else Inr itr) of
             Inl e \<Rightarrow> Inl e
           | Inr postRecoveryEntry \<Rightarrow>
               if tenantEntry \<noteq> postRecoveryEntry then Inl internal_error
               else checkTenants_beforeRestore self tenantMap rest))"

text \<open>The second loop, over the tracked tenants.\<close>

fun checkTenants_created ::
  "MetaclusterRestoreWorkload \<Rightarrow> (tenant_id \<rightharpoonup> TenantMapEntry) \<Rightarrow> tenant_id list \<Rightarrow> error + unit" where
  "checkTenants_created self tenantMap [] = Inr ()"
| "checkTenants_created self tenantMap (tid # rest) =
     (let tenantData = createdTenants_at self tid
      in case tenantMap tid of
           None \<Rightarrow>
             if createTime tenantData = BEFORE_BACKUP then Inl internal_error
             else if \<not> (restored (dataDbs_at self (td_cluster tenantData))
                        \<and> recoverManagementCluster self)
             then Inl internal_error
             else checkTenants_created self tenantMap rest
         | Some tenantItr \<Rightarrow>
             if createTime tenantData \<noteq> BEFORE_BACKUP
                \<and> restored (dataDbs_at self (td_cluster tenantData))
             then
               (if \<not> (tenantState tenantItr = ERROR
                       \<or> (tenantState tenantItr = READY \<and> createTime tenantData = DURING_BACKUP))
                then Inl internal_error
                else if tenantState tenantItr = ERROR
                        \<and> \<not> restoreHasMessages (dataDbs_at self (td_cluster tenantData))
                then Inl internal_error
                else checkTenants_created self tenantMap rest)
             else if tenantState tenantItr \<noteq> READY then Inl internal_error
             else checkTenants_created self tenantMap rest)"

text \<open>The third loop, over the ids of the management cluster's tenant map.\<close>

fun checkTenants_unexpected :: "MetaclusterRestoreWorkload \<Rightarrow> tenant_id list \<Rightarrow> error + unit" where
  "checkTenants_unexpected self [] = Inr ()"
| "checkTenants_unexpected self (tid # rest) =
     (if createdTenants self tid = None then
        (if tid \<notin> deletedTenants self then Inl internal_error
         else if \<not> recoverManagementCluster self then Inl internal_error
         else if \<not> recoverDataClusters self then Inl internal_error
         else checkTenants_unexpected self rest)
      else checkTenants_unexpected self rest)"

text \<open>
  \<^verbatim>\<open>checkTenants\<close>; the content of the management cluster's tenant map is a parameter.
\<close>

definition checkTenants ::
  "nat \<Rightarrow> MetaclusterRestoreWorkload \<Rightarrow> (tenant_id \<times> TenantMapEntry) list \<Rightarrow> error + unit" where
  "checkTenants MAX_TENANTS_PER_CLUSTER self tenantMapContent =
     (let results = take (MAX_TENANTS_PER_CLUSTER + 1) tenantMapContent
      in if \<not> length results \<le> MAX_TENANTS_PER_CLUSTER then Inl internal_error
         else
           (let tenantMap = map_of results
            in case checkTenants_beforeRestore self tenantMap (managementTenantsBeforeRestore self) of
                 Inl e \<Rightarrow> Inl e
               | Inr u \<Rightarrow>
                   if managementTenantsBeforeRestore self \<noteq> []
                      \<and> length (managementTenantsBeforeRestore self)
                          \<noteq> length (remdups (map fst results))
                   then Inl internal_error
                   else
                     (case checkTenants_created self tenantMap
                             (sorted_list_of_set (dom (createdTenants self))) of
                        Inl e \<Rightarrow> Inl e
                      | Inr u \<Rightarrow>
                          checkTenants_unexpected self (sort (remdups (map fst results))))))"

text \<open>What the first loop of the restored branch has checked for one tracked tenant.\<close>

definition trackedTenantChecked ::
  "MetaclusterRestoreWorkload \<Rightarrow> ClusterName \<Rightarrow> (tenant_id \<rightharpoonup> TenantMapEntry) \<Rightarrow> tenant_id \<Rightarrow> bool" where
  "trackedTenantChecked self clusterName tenantMap t =
     (let tenantData = createdTenants_at self t
      in (createTime tenantData = AFTER_BACKUP \<longrightarrow> tenantMap t = None)
       \<and> (createTime tenantData = BEFORE_BACKUP \<longrightarrow>
            (\<exists>entry. tenantMap t = Some entry
               \<and> td_cluster tenantData = clusterName
               \<and> (\<not> recoverManagementCluster self \<or> AccessTime_le (configureTime tenantData) BEFORE_BACKUP
                    \<longrightarrow> tenantGroup entry = td_tenantGroup tenantData)
               \<and> (\<not> recoverManagementCluster self \<or> AccessTime_le (renameTime tenantData) BEFORE_BACKUP
                    \<longrightarrow> tenantName entry = td_name tenantData))))"

subsection \<open>The arithmetic of increaseMetaclusterCapacity\<close>

text \<open>
  \<^verbatim>\<open>ceil(self->tenantGroupCapacity * 1.2)\<close> is computed in IEEE 754 double precision. The
  \<^verbatim>\<open>int\<close> converts exactly; the literal \<^verbatim>\<open>1.2\<close> is the double \<open>5404319552844595 / 2^52\<close>; the
  product is the exact product rounded to a mantissa of 53 bits, to the nearest and to even
  on a tie; \<^verbatim>\<open>ceil\<close> is exact. Numbers are kept as numerators over \<open>2^52\<close>.
\<close>

definition mantissa_1_2 :: nat where
  "mantissa_1_2 = 5404319552844595"

fun bitlen :: "nat \<Rightarrow> nat" where
  "bitlen n = (if n = 0 then 0 else Suc (bitlen (n div 2)))"

declare bitlen.simps [simp del]

text \<open>
  Rounding of the numerator \<open>p\<close> to 53 significant bits: the bits below the 53 leading ones
  are dropped, and the result is rounded up when they are more than half of the last place
  kept, or exactly half while the kept part is odd.
\<close>

definition round_to_double :: "nat \<Rightarrow> nat" where
  "round_to_double p =
     (let s = bitlen p - 53;
          q = p div 2 ^ s;
          r = p mod 2 ^ s;
          m = (if 2 * r > 2 ^ s \<or> (2 * r = 2 ^ s \<and> odd q) then q + 1 else q)
      in m * 2 ^ s)"

definition ceil_times_1_2 :: "int \<Rightarrow> int" where
  "ceil_times_1_2 n =
     (if 0 \<le> n then (int (round_to_double (nat n * mantissa_1_2)) + 2 ^ 52 - 1) div 2 ^ 52
      else - (int (round_to_double (nat (- n) * mantissa_1_2)) div 2 ^ 52))"

text \<open>The range of \<^verbatim>\<open>int\<close>, outside of which the conversion of the double is undefined.\<close>

definition fits_int :: "int \<Rightarrow> bool" where
  "fits_int v = (- (2 ^ 31) \<le> v \<and> v < 2 ^ 31)"

subsection \<open>Tenant operations and the growth of the capacity\<close>

text \<open>
  Modelled from the spec: \<^verbatim>\<open>DataClusterEntry\<close> (fdbclient/Metacluster.h) is not part of the
  sources at hand. A registered data cluster has a configured capacity in tenant groups and
  a number of tenant groups allocated against it.
\<close>

record DataClusterEntry =
  capacity_numTenantGroups :: int
  allocated_numTenantGroups :: int

text \<open>
  The interfaces of the tenant operations, parameters as before:
  \<^item> \<open>api_createTenant n g\<close>: \<^verbatim>\<open>MetaclusterAPI::createTenant\<close> with
    \<^verbatim>\<open>AssignClusterAutomatically::True\<close> for an entry with the name \<open>n\<close> and the group \<open>g\<close>;
  \<^item> \<open>api_getTenant n\<close>: \<^verbatim>\<open>MetaclusterAPI::getTenant\<close>;
  \<^item> \<open>api_configureTenant n g\<close>: \<^verbatim>\<open>MetaclusterAPI::configureTenant\<close> with the parameter
    \<^verbatim>\<open>tenant_group\<close> set to \<open>g\<close>;
  \<^item> \<open>api_getClusterTransaction c\<close>: \<^verbatim>\<open>MetaclusterAPI::getClusterTransaction\<close>, the entry of
    the metadata read in the transaction;
  \<^item> \<open>api_commit writes\<close>: the commit of the transaction in which
    \<^verbatim>\<open>MetaclusterAPI::updateClusterMetadata\<close> was called with each cluster and updated entry
    of \<open>writes\<close>, in this order;
  \<^item> \<open>api_onError e\<close>: \<^verbatim>\<open>tr->onError(e)\<close>, which returns for an error that can be retried
    and throws otherwise.
\<close>

record 'w tenant_api =
  api_createTenant :: "TenantName \<Rightarrow> TenantGroupName option \<Rightarrow> 'w \<Rightarrow> error option \<times> 'w"
  api_getTenant :: "TenantName \<Rightarrow> 'w \<Rightarrow> error + TenantMapEntry"
  api_configureTenant :: "TenantName \<Rightarrow> TenantGroupName option \<Rightarrow> 'w \<Rightarrow> error option \<times> 'w"
  api_getClusterTransaction :: "ClusterName \<Rightarrow> 'w \<Rightarrow> error + DataClusterEntry"
  api_commit :: "(ClusterName \<times> DataClusterEntry) list \<Rightarrow> 'w \<Rightarrow> error option \<times> 'w"
  api_onError :: "error \<Rightarrow> 'w \<Rightarrow> error option \<times> 'w"

text \<open>
  The \<^verbatim>\<open>for\<close> loop of \<^verbatim>\<open>increaseMetaclusterCapacity\<close> over \<^verbatim>\<open>dataDbIndex\<close>: it reads each
  cluster's entry and updates its capacity; \<open>writes\<close> collects the updates of the
  transaction.
\<close>

fun increaseMetaclusterCapacity_updates ::
  "'w tenant_api \<Rightarrow> int \<Rightarrow> 'w \<Rightarrow> ClusterName list \<Rightarrow> (ClusterName \<times> DataClusterEntry) list
   \<Rightarrow> error + (ClusterName \<times> DataClusterEntry) list" where
  "increaseMetaclusterCapacity_updates api capacity w [] writes = Inr writes"
| "increaseMetaclusterCapacity_updates api capacity w (c # rest) writes =
     (case api_getClusterTransaction api c w of
        Inl e \<Rightarrow> Inl e
      | Inr clusterMetadata \<Rightarrow>
          let updatedEntry = clusterMetadata\<lparr>capacity_numTenantGroups := capacity\<rparr>
          in increaseMetaclusterCapacity_updates api capacity w rest (writes @ [(c, updatedEntry)]))"

text \<open>
  The transaction loop of \<^verbatim>\<open>increaseMetaclusterCapacity\<close>. It can go on for ever, so the
  number of passes is bounded by \<open>fuel\<close>, and \<open>None\<close> stands for a loop still running.
\<close>

fun increaseMetaclusterCapacity_loop ::
  "'w tenant_api \<Rightarrow> nat \<Rightarrow> ClusterName list \<Rightarrow> int \<Rightarrow> 'w \<Rightarrow> (error + 'w) option" where
  "increaseMetaclusterCapacity_loop api 0 dataDbIndex' capacity w = None"
| "increaseMetaclusterCapacity_loop api (Suc fuel) dataDbIndex' capacity w =
     (case (case increaseMetaclusterCapacity_updates api capacity w dataDbIndex' [] of
              Inl e \<Rightarrow> (Some e, w)
            | Inr writes \<Rightarrow> api_commit api writes w) of
        (None, w') \<Rightarrow> Some (Inr w')
      | (Some e, w') \<Rightarrow>
          (case api_onError api e w' of
             (Some e', w'') \<Rightarrow> Some (Inl e')
           | (None, w'') \<Rightarrow> increaseMetaclusterCapacity_loop api fuel dataDbIndex' capacity w''))"

text \<open>
  \<^verbatim>\<open>increaseMetaclusterCapacity\<close>. The conversion of the double to \<^verbatim>\<open>int\<close> is undefined when
  the value does not fit.
\<close>

definition increaseMetaclusterCapacity ::
  "'w tenant_api \<Rightarrow> nat \<Rightarrow> MetaclusterRestoreWorkload \<Rightarrow> 'w
   \<Rightarrow> (error + MetaclusterRestoreWorkload \<times> 'w) option" where
  "increaseMetaclusterCapacity api fuel self w =
     (let v = ceil_times_1_2 (tenantGroupCapacity self)
      in if \<not> fits_int v then Some (Inl undefined_behavior)
         else let self' = self\<lparr>tenantGroupCapacity := v\<rparr>
              in case increaseMetaclusterCapacity_loop api fuel (dataDbIndex self')
                        (tenantGroupCapacity self') w of
                   None \<Rightarrow> None
                 | Some (Inl e) \<Rightarrow> Some (Inl e)
                 | Some (Inr w') \<Rightarrow> Some (Inr (self', w')))"

text \<open>
  The choice of a tenant name: up to ten draws, until one is not in the name index
  (\<open>wanted = False\<close>, for a creation) or is in it (\<open>wanted = True\<close>, for the other operations).
  \<open>draws\<close> are the names that \<^verbatim>\<open>chooseTenantName\<close> returns.
\<close>

fun pickTenantName ::
  "bool \<Rightarrow> (TenantName \<rightharpoonup> tenant_id) \<Rightarrow> TenantName list \<Rightarrow> TenantName \<Rightarrow> TenantName" where
  "pickTenantName wanted index [] current = current"
| "pickTenantName wanted index (d # draws) current =
     (if (index d \<noteq> None) = wanted then d else pickTenantName wanted index draws d)"

text \<open>The update of the Reference Model after a tenant was created.\<close>

definition recordCreatedTenant ::
  "TenantName \<Rightarrow> AccessTime \<Rightarrow> TenantMapEntry \<Rightarrow> ClusterName \<Rightarrow> MetaclusterRestoreWorkload
   \<Rightarrow> MetaclusterRestoreWorkload" where
  "recordCreatedTenant tenantName' createTime' createdEntry cluster self =
     (let self1 = self\<lparr>createdTenants := (createdTenants self)
                    (tme_id createdEntry \<mapsto>
                       TenantData_init tenantName' cluster (tenantGroup createdEntry) createTime')\<rparr>;
          self2 = self1\<lparr>tenantNameIndex := (tenantNameIndex self1)(tenantName' \<mapsto> tme_id createdEntry)\<rparr>;
          dataDb = dataDbs_at self2 cluster;
          dataDb1 = dataDb\<lparr>dc_tenants := insert (tme_id createdEntry) (dc_tenants dataDb)\<rparr>
      in case tenantGroup createdEntry of
           None \<Rightarrow> self2\<lparr>dataDbs := (dataDbs self2)(cluster \<mapsto> dataDb1)\<rparr>
         | Some g \<Rightarrow>
             let tenantGroupData = tenantGroups_at self2 g;
                 tenantGroupData1 = tenantGroupData\<lparr>tg_cluster := cluster\<rparr>;
                 tenantGroupData2 = tenantGroupData1
                   \<lparr>tg_tenants := insert (tme_id createdEntry) (tg_tenants tenantGroupData1)\<rparr>;
                 dataDb2 = dataDb1\<lparr>dc_tenantGroups := insert g (dc_tenantGroups dataDb1)\<rparr>
             in self2\<lparr>tenantGroups := (tenantGroups self2)(g \<mapsto> tenantGroupData2),
                      dataDbs := (dataDbs self2)(cluster \<mapsto> dataDb2)\<rparr>)"

text \<open>
  The loop of \<^verbatim>\<open>createTenant\<close>. Each pass draws a tenant group anew; \<open>groups\<close> are the
  outcomes of \<^verbatim>\<open>chooseTenantGroup\<close>, one for each pass, and the loop is still running
  (\<open>None\<close>) when they are used up. \<open>fuel\<close> bounds the transaction loop of each growth of the
  capacity. \<^verbatim>\<open>Optional::get\<close> on an absent assigned cluster fails an assertion.
\<close>

fun createTenant_loop ::
  "'w tenant_api \<Rightarrow> nat \<Rightarrow> TenantName \<Rightarrow> AccessTime \<Rightarrow> TenantGroupName option list
   \<Rightarrow> MetaclusterRestoreWorkload \<Rightarrow> 'w \<Rightarrow> (error + MetaclusterRestoreWorkload \<times> 'w) option" where
  "createTenant_loop api fuel tenantName' createTime' [] self w = None"
| "createTenant_loop api fuel tenantName' createTime' (g # groups) self w =
     (case (case api_createTenant api tenantName' g w of
              (Some e, w1) \<Rightarrow> (Inl e, w1)
            | (None, w1) \<Rightarrow>
                (case api_getTenant api tenantName' w1 of
                   Inl e \<Rightarrow> (Inl e, w1)
                 | Inr createdEntry \<Rightarrow> (Inr createdEntry, w1))) of
        (Inr createdEntry, w1) \<Rightarrow>
          (case assignedCluster createdEntry of
             None \<Rightarrow> Some (Inl internal_error)
           | Some cluster \<Rightarrow>
               Some (Inr (recordCreatedTenant tenantName' createTime' createdEntry cluster self, w1)))
      | (Inl e, w1) \<Rightarrow>
          if e \<noteq> metacluster_no_capacity then Some (Inl e)
          else (case increaseMetaclusterCapacity api fuel self w1 of
                  None \<Rightarrow> None
                | Some (Inl e') \<Rightarrow> Some (Inl e')
                | Some (Inr (self', w2)) \<Rightarrow>
                    createTenant_loop api fuel tenantName' createTime' groups self' w2))"

definition createTenant ::
  "'w tenant_api \<Rightarrow> nat \<Rightarrow> TenantName list \<Rightarrow> AccessTime \<Rightarrow> TenantGroupName option list
   \<Rightarrow> MetaclusterRestoreWorkload \<Rightarrow> 'w \<Rightarrow> (error + MetaclusterRestoreWorkload \<times> 'w) option" where
  "createTenant api fuel draws createTime' groups self w =
     (let tenantName' = pickTenantName False (tenantNameIndex self) (take 10 draws) []
      in if tenantNameIndex self tenantName' \<noteq> None then Some (Inr (self, w))
         else createTenant_loop api fuel tenantName' createTime' groups self w)"

text \<open>
  The update of the Reference Model after a tenant was configured with a group. The
  tenant's old group is looked up with \<^verbatim>\<open>find\<close> and used unchecked.
\<close>

definition recordConfiguredTenant ::
  "tenant_id \<Rightarrow> TenantGroupName option \<Rightarrow> AccessTime \<Rightarrow> MetaclusterRestoreWorkload
   \<Rightarrow> error + MetaclusterRestoreWorkload" where
  "recordConfiguredTenant tid tenantGroup' accessTime self =
     (let tenantData = createdTenants_at self tid
      in if td_tenantGroup tenantData \<noteq> tenantGroup' then
           (let dataDb = dataDbs_at self (td_cluster tenantData)
            in case (case td_tenantGroup tenantData of
                       None \<Rightarrow> Inr (tenantGroups self, dataDb)
                     | Some old \<Rightarrow>
                         (case tenantGroups self old of
                            None \<Rightarrow> Inl undefined_behavior
                          | Some groupItr \<Rightarrow>
                              let groupItr1 = groupItr\<lparr>tg_tenants := tg_tenants groupItr - {tid}\<rparr>
                              in if tg_tenants groupItr1 = {}
                                 then Inr ((tenantGroups self)(old := None),
                                           dataDb\<lparr>dc_tenantGroups := dc_tenantGroups dataDb - {old}\<rparr>)
                                 else Inr ((tenantGroups self)(old \<mapsto> groupItr1), dataDb))) of
                 Inl e \<Rightarrow> Inl e
               | Inr (groups1, dataDb1) \<Rightarrow>
                   let joined =
                         (case tenantGroup' of
                            None \<Rightarrow> (groups1, dataDb1)
                          | Some new \<Rightarrow>
                              (let gd = (case groups1 new of
                                           None \<Rightarrow> TenantGroupData_default | Some gd' \<Rightarrow> gd')
                               in (groups1(new \<mapsto> gd\<lparr>tg_tenants := insert tid (tg_tenants gd)\<rparr>),
                                   dataDb1\<lparr>dc_tenantGroups := insert new (dc_tenantGroups dataDb1)\<rparr>)));
                       tenantData1 = tenantData\<lparr>td_tenantGroup := tenantGroup',
                                                 configureTime := accessTime\<rparr>
                   in Inr (self\<lparr>tenantGroups := fst joined,
                                 dataDbs := (dataDbs self)(td_cluster tenantData \<mapsto> snd joined),
                                 createdTenants := (createdTenants self)(tid \<mapsto> tenantData1)\<rparr>))
         else Inr (self\<lparr>createdTenants := (createdTenants self)(tid \<mapsto> tenantData)\<rparr>))"

text \<open>
  The loop of \<^verbatim>\<open>configureTenant\<close>; the group is drawn once, before the loop, and \<open>passes\<close>
  bounds the number of passes.
\<close>

fun configureTenant_loop ::
  "'w tenant_api \<Rightarrow> nat \<Rightarrow> nat \<Rightarrow> TenantName \<Rightarrow> tenant_id \<Rightarrow> TenantGroupName option \<Rightarrow> AccessTime
   \<Rightarrow> MetaclusterRestoreWorkload \<Rightarrow> 'w \<Rightarrow> (error + MetaclusterRestoreWorkload \<times> 'w) option" where
  "configureTenant_loop api fuel 0 tenantName' tid tenantGroup' accessTime self w = None"
| "configureTenant_loop api fuel (Suc passes) tenantName' tid tenantGroup' accessTime self w =
     (case api_configureTenant api tenantName' tenantGroup' w of
        (None, w1) \<Rightarrow>
          (case recordConfiguredTenant tid tenantGroup' accessTime self of
             Inl e \<Rightarrow> Some (Inl e)
           | Inr self' \<Rightarrow> Some (Inr (self', w1)))
      | (Some e, w1) \<Rightarrow>
          if e \<noteq> cluster_no_capacity then Some (Inl e)
          else (case increaseMetaclusterCapacity api fuel self w1 of
                  None \<Rightarrow> None
                | Some (Inl e') \<Rightarrow> Some (Inl e')
                | Some (Inr (self', w2)) \<Rightarrow>
                    configureTenant_loop api fuel passes tenantName' tid tenantGroup' accessTime
                      self' w2))"

text \<open>
  \<^verbatim>\<open>configureTenant\<close>; \<open>chosenGroup\<close> is the outcome of \<^verbatim>\<open>chooseTenantGroup\<close> for the tenant's
  cluster.
\<close>

definition configureTenant ::
  "'w tenant_api \<Rightarrow> nat \<Rightarrow> nat \<Rightarrow> TenantName list \<Rightarrow> AccessTime \<Rightarrow> TenantGroupName option
   \<Rightarrow> MetaclusterRestoreWorkload \<Rightarrow> 'w \<Rightarrow> (error + MetaclusterRestoreWorkload \<times> 'w) option" where
  "configureTenant api fuel passes draws accessTime chosenGroup self w =
     (let tenantName' = pickTenantName True (tenantNameIndex self) (take 10 draws) []
      in case tenantNameIndex self tenantName' of
           None \<Rightarrow> Some (Inr (self, w))
         | Some tid \<Rightarrow>
             configureTenant_loop api fuel passes tenantName' tid chosenGroup accessTime self w)"

subsection \<open>An example state\<close>

text \<open>
  Two data clusters, three tracked tenants (tenant 1 in group \<open>g0\<close> on cluster \<open>c0\<close>) and
  one deleted tenant.
\<close>

definition example_workload :: MetaclusterRestoreWorkload where
  "example_workload =
     \<lparr>dataDbs = [''c0'' \<mapsto> \<lparr>dc_tenants = {1, 2}, dc_tenantGroups = {''g0''},
                              restored = False, restoreHasMessages = False\<rparr>,
                  ''c1'' \<mapsto> \<lparr>dc_tenants = {3}, dc_tenantGroups = {},
                              restored = False, restoreHasMessages = False\<rparr>],
      dataDbIndex = [''c0'', ''c1''],
      createdTenants = [1 \<mapsto> TenantData_init ''t1'' ''c0'' (Some ''g0'') BEFORE_BACKUP,
                        2 \<mapsto> TenantData_init ''t2'' ''c0'' None BEFORE_BACKUP,
                        3 \<mapsto> TenantData_init ''t3'' ''c1'' None DURING_BACKUP],
      tenantNameIndex = [''t1'' \<mapsto> 1, ''t2'' \<mapsto> 2, ''t3'' \<mapsto> 3],
      tenantGroups = [''g0'' \<mapsto> \<lparr>tg_cluster = ''c0'', tg_tenants = {1}\<rparr>],
      deletedTenants = {7},
      managementTenantsBeforeRestore = [],
      initialTenants = 3, maxTenants = 1000, maxTenantGroups = 20, tenantGroupCapacity = 10,
      recoverManagementCluster = True, recoverDataClusters = True, backupComplete = True\<rparr>"

text \<open>
  An example of the interfaces. The state is the tenant map of a data cluster and the
  number of restores the management cluster has applied. Clearing empties the tenant map,
  the backup holds tenant 1, a restore with \<^verbatim>\<open>RestoreDryRun::False\<close> ends as \<open>outcome\<close>
  says and counts, and every restore adds a message.
\<close>

definition example_entry :: TenantMapEntry where
  "example_entry =
     \<lparr>tme_id = 1, tenantName = ''t1'', tenantGroup = Some ''g0'', assignedCluster = Some ''c0'',
      tenantState = READY, tme_error = []\<rparr>"

definition example_api :: "error option \<Rightarrow> ((tenant_id \<times> TenantMapEntry) list \<times> nat) api" where
  "example_api outcome =
     \<lparr>api_clearDatabase = (\<lambda>c (tm, n). Inr ([], n)),
      api_backupRestore = (\<lambda>c url (tm, n). Inr ([(1, example_entry)], n)),
      api_restoreCluster = (\<lambda>c a d f messages (tm, n).
         if d then (None, messages @ [''dry run: tenant renamed''], (tm, n))
         else (outcome, messages @ [''tenant renamed''], (tm, n + 1))),
      api_removeCluster = (\<lambda>c w. (Some cluster_not_found, w)),
      api_tenantMap = (\<lambda>c (tm, n). tm)\<rparr>"

text \<open>The example state after cluster \<open>c0\<close> was restored with messages.\<close>

definition example_restored :: MetaclusterRestoreWorkload where
  "example_restored =
     example_workload\<lparr>dataDbs := (dataDbs example_workload)
       (''c0'' \<mapsto> \<lparr>dc_tenants = {1, 2}, dc_tenantGroups = {''g0''},
                    restored = True, restoreHasMessages = True\<rparr>)\<rparr>"

text \<open>
  Tenant map entries of the example: tenants 2 and 3, and the deleted tenant 7. In
  \<open>example_renamed\<close> tenant 2 was renamed during the backup; in
  \<open>example_renamed_before\<close> the rename is stamped \<^verbatim>\<open>BEFORE_BACKUP\<close> and the management cluster
  is not recovered.
\<close>

definition example_entry2 :: TenantMapEntry where
  "example_entry2 =
     \<lparr>tme_id = 2, tenantName = ''t2'', tenantGroup = None, assignedCluster = Some ''c0'',
      tenantState = READY, tme_error = []\<rparr>"

definition example_entry3 :: TenantMapEntry where
  "example_entry3 =
     \<lparr>tme_id = 3, tenantName = ''t3'', tenantGroup = None, assignedCluster = Some ''c1'',
      tenantState = READY, tme_error = []\<rparr>"

definition example_entry7 :: TenantMapEntry where
  "example_entry7 =
     \<lparr>tme_id = 7, tenantName = ''t7'', tenantGroup = None, assignedCluster = Some ''c0'',
      tenantState = READY, tme_error = []\<rparr>"

definition example_c0 :: DataClusterData where
  "example_c0 = \<lparr>dc_tenants = {1, 2}, dc_tenantGroups = {''g0''},
                  restored = True, restoreHasMessages = True\<rparr>"

definition example_c1 :: DataClusterData where
  "example_c1 = \<lparr>dc_tenants = {3}, dc_tenantGroups = {},
                  restored = True, restoreHasMessages = False\<rparr>"

definition example_renamed :: MetaclusterRestoreWorkload where
  "example_renamed =
     example_workload\<lparr>createdTenants := (createdTenants example_workload)
       (2 \<mapsto> (TenantData_init ''t2new'' ''c0'' None BEFORE_BACKUP)\<lparr>renameTime := DURING_BACKUP\<rparr>)\<rparr>"

definition example_renamed_before :: MetaclusterRestoreWorkload where
  "example_renamed_before =
     example_workload\<lparr>createdTenants := (createdTenants example_workload)
       (2 \<mapsto> (TenantData_init ''t2new'' ''c0'' None BEFORE_BACKUP)\<lparr>renameTime := BEFORE_BACKUP\<rparr>),
       recoverManagementCluster := False\<rparr>"

text \<open>
  Contents of tenant maps: of cluster \<open>c0\<close> as the backup has it, of \<open>c0\<close> with the
  deleted tenant 7 back, and of the management cluster.
\<close>

definition example_tenantMap_backup :: "(tenant_id \<times> TenantMapEntry) list" where
  "example_tenantMap_backup = [(1, example_entry), (2, example_entry2)]"

definition example_tenantMap_undeleted :: "(tenant_id \<times> TenantMapEntry) list" where
  "example_tenantMap_undeleted = [(1, example_entry), (2, example_entry2), (7, example_entry7)]"

definition example_tenantMap_management :: "(tenant_id \<times> TenantMapEntry) list" where
  "example_tenantMap_management =
     [(1, example_entry), (2, example_entry2), (3, example_entry3), (7, example_entry7)]"

text \<open>Two name collisions: of tenant 1 with the management cluster's 2, and of 8 with 3.\<close>

definition example_tenantCollisions :: TenantCollisions where
  "example_tenantCollisions = [(''t1'', 1, 2), (''x'', 8, 3)]"

text \<open>
  An example of the tenant interfaces. The state is the capacity configured for the
  clusters; a tenant can be created or configured once the capacity is 12, the name \<open>bad\<close>
  is refused with another error, a commit sets the capacity that was written, and no error
  of the transaction can be retried.
\<close>

definition example_created_entry :: "TenantName \<Rightarrow> TenantMapEntry" where
  "example_created_entry n =
     \<lparr>tme_id = 4, tenantName = n, tenantGroup = None, assignedCluster = Some ''c0'',
      tenantState = READY, tme_error = []\<rparr>"

definition example_tenant_api :: "int tenant_api" where
  "example_tenant_api =
     \<lparr>api_createTenant = (\<lambda>n g w.
         (if n = ''bad'' then Some (other_error 1)
          else if w < 12 then Some metacluster_no_capacity else None, w)),
      api_getTenant = (\<lambda>n w. Inr (example_created_entry n)),
      api_configureTenant = (\<lambda>n g w.
         (if n = ''bad'' then Some (other_error 1)
          else if w < 12 then Some cluster_no_capacity else None, w)),
      api_getClusterTransaction = (\<lambda>c w.
         Inr \<lparr>capacity_numTenantGroups = w, allocated_numTenantGroups = 0\<rparr>),
      api_commit = (\<lambda>writes w.
         (None, case writes of [] \<Rightarrow> w | cw # rest \<Rightarrow> capacity_numTenantGroups (snd cw))),
      api_onError = (\<lambda>e w. (Some internal_error, w))\<rparr>"

section \<open>Properties\<close>

subsection \<open>Properties of TenantInfo\<close>

lemma object_byte_swapped:
  assumes "k < 8"
  shows "(ucast (drop_bit (8 * k) (bigEndian64 x)) :: byte) = ucast (drop_bit (8 * (7 - k)) x)"
proof -
  from assms have "k = 0 \<or> k = 1 \<or> k = 2 \<or> k = 3 \<or> k = 4 \<or> k = 5 \<or> k = 6 \<or> k = 7"
    by arith
  then show ?thesis
    unfolding bigEndian64_def
    by (elim disjE; hypsubst; intro bit_word_eqI; simp add: bit_simps; arith?)
qed

lemma idToPrefix_big_endian: "idToPrefix x = bigEndianBytes64 x"
  unfolding idToPrefix_def bigEndianBytes64_def object_bytes_def Let_def
  by (simp add: object_byte_swapped)

lemma byte_window: "a \<le> n \<Longrightarrow> n < a + 8 \<Longrightarrow> n - a < (8::nat)"
  by arith

lemma byte_window64: "a \<le> n \<Longrightarrow> n < a + 8 \<Longrightarrow> a + 8 \<le> 64 \<Longrightarrow> n - a < (64::nat)"
  by arith

text \<open>
  The eight bytes determine the id: reading them back, most significant byte first, gives
  the id again.
\<close>

lemma fromBigEndianBytes_bigEndianBytes64: "fromBigEndianBytes (bigEndianBytes64 x) = x"
proof (rule bit_word_eqI)
  fix n :: nat
  assume "n < LENGTH(64)"
  then have "n < 8 \<or> (8 \<le> n \<and> n < 16) \<or> (16 \<le> n \<and> n < 24) \<or> (24 \<le> n \<and> n < 32)
      \<or> (32 \<le> n \<and> n < 40) \<or> (40 \<le> n \<and> n < 48) \<or> (48 \<le> n \<and> n < 56)
      \<or> (56 \<le> n \<and> n < 64)"
    by simp arith
  then show "bit (fromBigEndianBytes (bigEndianBytes64 x)) n = bit x n"
    unfolding bigEndianBytes64_def fromBigEndianBytes_def
    by (elim disjE conjE; simp add: upt_rec bit_simps byte_window byte_window64; blast?)
qed

lemma length_bigEndianBytes64: "length (bigEndianBytes64 x) = 8"
  by (simp add: bigEndianBytes64_def)

lemma bigEndianBytes64_examples:
  "bigEndianBytes64 1 = [0, 0, 0, 0, 0, 0, 0, 1]" "bigEndianBytes64 5 = [0, 0, 0, 0, 0, 0, 0, 5]"
  by (simp_all add: bigEndianBytes64_def upt_rec)

text \<open>
  C10. A \<^verbatim>\<open>TenantInfo\<close> constructed from a 64-bit id \<open>t\<close> has a tenant exactly when \<open>t\<close> is
  not \<^verbatim>\<open>INVALID_TENANT\<close>, which is \<open>-1\<close>; when it has one, its prefix is present and is the
  8-byte big-endian encoding of \<open>t\<close>. A default-constructed \<^verbatim>\<open>TenantInfo\<close> has the id
  \<^verbatim>\<open>INVALID_TENANT\<close>, no prefix, and is not authorised, and neither is a constructed one.
  Deserialisation sets the two flags that \<^verbatim>\<open>isAuthorized\<close> reads: \<^verbatim>\<open>trusted\<close> is whether the
  peer is trusted, and \<^verbatim>\<open>tenantAuthorized\<close> holds when the knob
  \<^verbatim>\<open>ALLOW_TOKENLESS_TENANT_ACCESS\<close> is set, or else when the id is not \<^verbatim>\<open>INVALID_TENANT\<close>, a
  token is present and the token cache validates it. So a deserialised \<^verbatim>\<open>TenantInfo\<close> is
  authorised exactly when the peer is trusted, the knob is set, or the token was validated.
\<close>

theorem TenantInfo_construction:
  "hasTenant (TenantInfo_init t tok) = (t \<noteq> INVALID_TENANT)
   \<and> sint INVALID_TENANT = - 1
   \<and> (t \<noteq> INVALID_TENANT \<longrightarrow> prefix (TenantInfo_init t tok) = Some (bigEndianBytes64 t))
   \<and> tenantId TenantInfo_default = INVALID_TENANT
   \<and> prefix TenantInfo_default = None
   \<and> \<not> isAuthorized TenantInfo_default
   \<and> \<not> isAuthorized (TenantInfo_init t tok)
   \<and> trusted (deserialize knob validate peerTrusted tid tk) = peerTrusted
   \<and> tenantAuthorized (deserialize knob validate peerTrusted tid tk)
        = (knob \<or> (tid \<noteq> INVALID_TENANT \<and> (\<exists>k. tk = Some k \<and> validate tid k)))
   \<and> isAuthorized (deserialize knob validate peerTrusted tid tk)
        = (peerTrusted \<or> knob \<or> (tid \<noteq> INVALID_TENANT \<and> (\<exists>k. tk = Some k \<and> validate tid k)))
   \<and> hasTenant (deserialize knob validate peerTrusted tid tk) = (tid \<noteq> INVALID_TENANT)
   \<and> (tid \<noteq> INVALID_TENANT \<longrightarrow>
         prefix (deserialize knob validate peerTrusted tid tk) = Some (bigEndianBytes64 tid))"
proof -
  have init: "hasTenant (TenantInfo_init t tok) = (t \<noteq> INVALID_TENANT)"
    "t \<noteq> INVALID_TENANT \<longrightarrow> prefix (TenantInfo_init t tok) = Some (bigEndianBytes64 t)"
    "\<not> isAuthorized (TenantInfo_init t tok)"
    by (simp_all add: hasTenant_def TenantInfo_init_def isAuthorized_def Let_def idToPrefix_big_endian)
  have dflt: "sint INVALID_TENANT = - 1" "tenantId TenantInfo_default = INVALID_TENANT"
    "prefix TenantInfo_default = None" "\<not> isAuthorized TenantInfo_default"
    by (simp_all add: TenantInfo_default_def isAuthorized_def INVALID_TENANT_def)
  have flags: "trusted (deserialize knob validate peerTrusted tid tk) = peerTrusted"
    "tenantAuthorized (deserialize knob validate peerTrusted tid tk)
        = (knob \<or> (tid \<noteq> INVALID_TENANT \<and> (\<exists>k. tk = Some k \<and> validate tid k)))"
    by (auto simp: deserialize_def Let_def hasTenant_def split: option.splits)
  have auth: "isAuthorized (deserialize knob validate peerTrusted tid tk)
        = (peerTrusted \<or> knob \<or> (tid \<noteq> INVALID_TENANT \<and> (\<exists>k. tk = Some k \<and> validate tid k)))"
    by (simp only: isAuthorized_def flags)
  have des: "hasTenant (deserialize knob validate peerTrusted tid tk) = (tid \<noteq> INVALID_TENANT)"
    "tid \<noteq> INVALID_TENANT \<longrightarrow>
         prefix (deserialize knob validate peerTrusted tid tk) = Some (bigEndianBytes64 tid)"
    by (simp_all add: deserialize_def Let_def hasTenant_def idToPrefix_big_endian)
  show ?thesis
    using init dflt flags auth des by (intro conjI)
qed

theorem TenantInfo_construction_witness:
  "(1 :: int64_t) \<noteq> INVALID_TENANT
   \<and> hasTenant (TenantInfo_init 1 None)
   \<and> prefix (TenantInfo_init 1 None) = Some [0, 0, 0, 0, 0, 0, 0, 1]
   \<and> \<not> isAuthorized (TenantInfo_init 1 None)
   \<and> (5 :: int64_t) \<noteq> INVALID_TENANT
   \<and> isAuthorized (deserialize False (\<lambda>tid tk. tk = ''good'') False 5 (Some ''good''))
   \<and> prefix (deserialize False (\<lambda>tid tk. tk = ''good'') False 5 (Some ''good''))
        = Some [0, 0, 0, 0, 0, 0, 0, 5]
   \<and> \<not> isAuthorized (deserialize False (\<lambda>tid tk. tk = ''good'') False 5 (Some ''bad''))
   \<and> \<not> isAuthorized (deserialize False (\<lambda>tid tk. tk = ''good'') False 5 None)
   \<and> isAuthorized (deserialize False (\<lambda>tid tk. tk = ''good'') True 5 None)"
proof -
  have h: "(1 :: int64_t) \<noteq> INVALID_TENANT" "(5 :: int64_t) \<noteq> INVALID_TENANT"
    by (simp_all add: INVALID_TENANT_def)
  note good = TenantInfo_construction [of 1 None False "\<lambda>tid tk. tk = ''good''" False 5 "Some ''good''"]
  note bad = TenantInfo_construction [of 1 None False "\<lambda>tid tk. tk = ''good''" False 5 "Some ''bad''"]
  note none = TenantInfo_construction [of 1 None False "\<lambda>tid tk. tk = ''good''" False 5 None]
  note peer = TenantInfo_construction [of 1 None False "\<lambda>tid tk. tk = ''good''" True 5 None]
  show ?thesis
    using h good bad none peer by (simp add: bigEndianBytes64_examples)
qed

text \<open>
  The claim as stated has \<^verbatim>\<open>isAuthorized\<close> hold only when the peer is trusted or the token
  was validated. With the knob \<^verbatim>\<open>ALLOW_TOKENLESS_TENANT_ACCESS\<close> set, a request from a peer
  that is not trusted is authorised although the token cache refuses its token, and so is
  a request that carries no token.
\<close>

theorem tokenless_access_counterexample:
  "example_refused_token = deserialize True (\<lambda>tid tk. False) False 5 (Some ''bad'')
   \<and> isAuthorized example_refused_token
   \<and> \<not> trusted example_refused_token
   \<and> token example_refused_token = Some ''bad''
   \<and> example_tokenless = deserialize True (\<lambda>tid tk. False) False 5 None
   \<and> isAuthorized example_tokenless
   \<and> \<not> trusted example_tokenless
   \<and> token example_tokenless = None"
  by (simp add: example_refused_token_def example_tokenless_def isAuthorized_def deserialize_def
      Let_def hasTenant_def INVALID_TENANT_def)


subsection \<open>Properties of removeTrackedTenant\<close>

lemma removeTrackedTenant_untracked:
  "createdTenants self tid = None \<Longrightarrow> removeTrackedTenant tid self = self"
  by (simp add: removeTrackedTenant_def)

lemma createdTenants_removeTrackedTenant:
  "createdTenants (removeTrackedTenant tid self) = (createdTenants self)(tid := None)"
  by (auto simp: removeTrackedTenant_def Let_def split: option.splits)

lemma deletedTenants_removeTrackedTenant:
  "deletedTenants (removeTrackedTenant tid self) =
     (if createdTenants self tid = None then deletedTenants self else insert tid (deletedTenants self))"
  by (auto simp: removeTrackedTenant_def Let_def split: option.splits)

lemma dataDbs_at_removeTrackedTenant:
  "dataDbs_at (removeTrackedTenant tid self) c =
     (dataDbs_at self c)\<lparr>dc_tenants := dc_tenants (dataDbs_at self c)
        - (if \<exists>td. createdTenants self tid = Some td \<and> td_cluster td = c then {tid} else {})\<rparr>"
  by (auto simp: removeTrackedTenant_def Let_def dataDbs_at_def split: option.splits)

lemma tenantGroups_at_removeTrackedTenant:
  "tenantGroups_at (removeTrackedTenant tid self) g =
     (tenantGroups_at self g)\<lparr>tg_tenants := tg_tenants (tenantGroups_at self g)
        - (if \<exists>td. createdTenants self tid = Some td \<and> td_tenantGroup td = Some g then {tid} else {})\<rparr>"
  by (auto simp: removeTrackedTenant_def Let_def tenantGroups_at_def split: option.splits)

lemma removeTrackedTenant_frame:
  "(removeTrackedTenant tid self)\<lparr>createdTenants := a, deletedTenants := b, dataDbs := c,
      tenantGroups := d\<rparr>
   = self\<lparr>createdTenants := a, deletedTenants := b, dataDbs := c, tenantGroups := d\<rparr>"
  by (auto simp: removeTrackedTenant_def Let_def split: option.splits)

lemma fold_removeTrackedTenant_created:
  "createdTenants (fold removeTrackedTenant ts self) t =
     (if t \<in> set ts then None else createdTenants self t)"
  by (induction ts arbitrary: self) (auto simp: createdTenants_removeTrackedTenant)

lemma fold_removeTrackedTenant_deleted:
  "deletedTenants (fold removeTrackedTenant ts self) =
     deletedTenants self \<union> {t \<in> set ts. createdTenants self t \<noteq> None}"
  by (induction ts arbitrary: self)
     (auto simp: createdTenants_removeTrackedTenant deletedTenants_removeTrackedTenant
        split: if_splits)

lemma fold_removeTrackedTenant_dataDbs_at:
  "dataDbs_at (fold removeTrackedTenant ts self) c =
     (dataDbs_at self c)\<lparr>dc_tenants := dc_tenants (dataDbs_at self c)
        - {t \<in> set ts. \<exists>td. createdTenants self t = Some td \<and> td_cluster td = c}\<rparr>"
proof (induction ts arbitrary: self)
  case Nil
  then show ?case by simp
next
  case (Cons a ts)
  have "dc_tenants (dataDbs_at self c)
          - (if \<exists>td. createdTenants self a = Some td \<and> td_cluster td = c then {a} else {})
          - {t \<in> set ts. \<exists>td. ((createdTenants self)(a := None)) t = Some td \<and> td_cluster td = c}
        = dc_tenants (dataDbs_at self c)
          - {t \<in> set (a # ts). \<exists>td. createdTenants self t = Some td \<and> td_cluster td = c}"
    by auto
  then show ?case
    by (simp add: Cons.IH dataDbs_at_removeTrackedTenant createdTenants_removeTrackedTenant)
qed

lemma fold_removeTrackedTenant_tenantGroups_at:
  "tenantGroups_at (fold removeTrackedTenant ts self) g =
     (tenantGroups_at self g)\<lparr>tg_tenants := tg_tenants (tenantGroups_at self g)
        - {t \<in> set ts. \<exists>td. createdTenants self t = Some td \<and> td_tenantGroup td = Some g}\<rparr>"
proof (induction ts arbitrary: self)
  case Nil
  then show ?case by simp
next
  case (Cons a ts)
  have "tg_tenants (tenantGroups_at self g)
          - (if \<exists>td. createdTenants self a = Some td \<and> td_tenantGroup td = Some g then {a} else {})
          - {t \<in> set ts. \<exists>td. ((createdTenants self)(a := None)) t = Some td \<and> td_tenantGroup td = Some g}
        = tg_tenants (tenantGroups_at self g)
          - {t \<in> set (a # ts). \<exists>td. createdTenants self t = Some td \<and> td_tenantGroup td = Some g}"
    by auto
  then show ?case
    by (simp add: Cons.IH tenantGroups_at_removeTrackedTenant createdTenants_removeTrackedTenant)
qed

lemma fold_removeTrackedTenant_frame:
  "(fold removeTrackedTenant ts self)\<lparr>createdTenants := a, deletedTenants := b, dataDbs := c,
      tenantGroups := d\<rparr>
   = self\<lparr>createdTenants := a, deletedTenants := b, dataDbs := c, tenantGroups := d\<rparr>"
  by (induction ts arbitrary: self) (simp_all add: removeTrackedTenant_frame)

lemma fold_removeTrackedTenant_rest:
  "(fold removeTrackedTenant ts self)\<lparr>createdTenants := createdTenants self,
      deletedTenants := deletedTenants self, dataDbs := dataDbs self,
      tenantGroups := tenantGroups self\<rparr> = self"
  by (simp add: fold_removeTrackedTenant_frame)

lemma fold_removeTrackedTenant_dom_tenantGroups:
  "dom (tenantGroups self) \<subseteq> dom (tenantGroups (fold removeTrackedTenant ts self))"
proof (induction ts arbitrary: self)
  case Nil
  then show ?case by simp
next
  case (Cons a ts)
  have "dom (tenantGroups self) \<subseteq> dom (tenantGroups (removeTrackedTenant a self))"
    by (auto simp: removeTrackedTenant_def Let_def split: option.splits)
  with Cons.IH [of "removeTrackedTenant a self"] show ?case by auto
qed

text \<open>
  C9. If the id is not tracked, \<^verbatim>\<open>removeTrackedTenant\<close> changes nothing (so the id does not
  enter the tombstone set). If it is tracked, and its cluster record and (if grouped) its
  group record exist, the call removes the id from \<^verbatim>\<open>createdTenants\<close>, from its cluster's
  tenant set and from its group's tenant set, adds it to \<^verbatim>\<open>deletedTenants\<close>, and leaves the
  rest of the Reference Model as it was: the name index still maps the tenant's name to the
  id, the group stays in the group map and in the cluster's group set, and every other field
  is unchanged.
\<close>

theorem removeTrackedTenant_effect:
  "(createdTenants self tid = None \<longrightarrow> removeTrackedTenant tid self = self)
   \<and> (\<forall>td d. createdTenants self tid = Some td \<and> dataDbs self (td_cluster td) = Some d
          \<and> (\<forall>g. td_tenantGroup td = Some g \<longrightarrow> tenantGroups self g \<noteq> None) \<longrightarrow>
        (let self' = removeTrackedTenant tid self in
           createdTenants self' = (createdTenants self)(tid := None)
         \<and> deletedTenants self' = insert tid (deletedTenants self)
         \<and> dataDbs self' = (dataDbs self)(td_cluster td \<mapsto> d\<lparr>dc_tenants := dc_tenants d - {tid}\<rparr>)
         \<and> (\<forall>g gd. td_tenantGroup td = Some g \<and> tenantGroups self g = Some gd \<longrightarrow>
               tenantGroups self' = (tenantGroups self)(g \<mapsto> gd\<lparr>tg_tenants := tg_tenants gd - {tid}\<rparr>))
         \<and> (td_tenantGroup td = None \<longrightarrow> tenantGroups self' = tenantGroups self)
         \<and> tenantNameIndex self' = tenantNameIndex self
         \<and> dom (tenantGroups self') = dom (tenantGroups self)
         \<and> dc_tenantGroups (dataDbs_at self' (td_cluster td)) = dc_tenantGroups d
         \<and> self'\<lparr>createdTenants := createdTenants self, deletedTenants := deletedTenants self,
                  dataDbs := dataDbs self, tenantGroups := tenantGroups self\<rparr> = self))"
proof (intro conjI allI impI)
  show "createdTenants self tid = None \<Longrightarrow> removeTrackedTenant tid self = self"
    by (rule removeTrackedTenant_untracked)
next
  fix td d
  assume a: "createdTenants self tid = Some td \<and> dataDbs self (td_cluster td) = Some d
          \<and> (\<forall>g. td_tenantGroup td = Some g \<longrightarrow> tenantGroups self g \<noteq> None)"
  then show "let self' = removeTrackedTenant tid self in
           createdTenants self' = (createdTenants self)(tid := None)
         \<and> deletedTenants self' = insert tid (deletedTenants self)
         \<and> dataDbs self' = (dataDbs self)(td_cluster td \<mapsto> d\<lparr>dc_tenants := dc_tenants d - {tid}\<rparr>)
         \<and> (\<forall>g gd. td_tenantGroup td = Some g \<and> tenantGroups self g = Some gd \<longrightarrow>
               tenantGroups self' = (tenantGroups self)(g \<mapsto> gd\<lparr>tg_tenants := tg_tenants gd - {tid}\<rparr>))
         \<and> (td_tenantGroup td = None \<longrightarrow> tenantGroups self' = tenantGroups self)
         \<and> tenantNameIndex self' = tenantNameIndex self
         \<and> dom (tenantGroups self') = dom (tenantGroups self)
         \<and> dc_tenantGroups (dataDbs_at self' (td_cluster td)) = dc_tenantGroups d
         \<and> self'\<lparr>createdTenants := createdTenants self, deletedTenants := deletedTenants self,
                  dataDbs := dataDbs self, tenantGroups := tenantGroups self\<rparr> = self"
    by (cases "td_tenantGroup td")
       (auto simp: removeTrackedTenant_def Let_def tenantGroups_at_def dataDbs_at_def)
qed

theorem removeTrackedTenant_effect_witness:
  "createdTenants example_workload 9 = None
   \<and> removeTrackedTenant 9 example_workload = example_workload
   \<and> 9 \<notin> deletedTenants (removeTrackedTenant 9 example_workload)
   \<and> createdTenants example_workload 1 = Some (TenantData_init ''t1'' ''c0'' (Some ''g0'') BEFORE_BACKUP)
   \<and> createdTenants (removeTrackedTenant 1 example_workload) 1 = None
   \<and> deletedTenants (removeTrackedTenant 1 example_workload) = {1, 7}
   \<and> dc_tenants (dataDbs_at (removeTrackedTenant 1 example_workload) ''c0'') = {2}
   \<and> tenantGroups (removeTrackedTenant 1 example_workload) ''g0'' = Some \<lparr>tg_cluster = ''c0'', tg_tenants = {}\<rparr>
   \<and> tenantNameIndex (removeTrackedTenant 1 example_workload) ''t1'' = Some 1
   \<and> dc_tenantGroups (dataDbs_at (removeTrackedTenant 1 example_workload) ''c0'') = {''g0''}"
proof -
  let ?td = "TenantData_init ''t1'' ''c0'' (Some ''g0'') BEFORE_BACKUP"
  let ?d = "\<lparr>dc_tenants = {1, 2}, dc_tenantGroups = {''g0''}, restored = False, restoreHasMessages = False\<rparr>"
  have u: "createdTenants example_workload 9 = None"
    by (simp add: example_workload_def)
  have t: "createdTenants example_workload 1 = Some ?td \<and> dataDbs example_workload (td_cluster ?td) = Some ?d
          \<and> (\<forall>g. td_tenantGroup ?td = Some g \<longrightarrow> tenantGroups example_workload g \<noteq> None)"
    by (simp add: example_workload_def TenantData_init_def)
  have g: "td_tenantGroup ?td = Some ''g0'' \<and> tenantGroups example_workload ''g0'' = Some \<lparr>tg_cluster = ''c0'', tg_tenants = {1}\<rparr>"
    by (simp add: example_workload_def TenantData_init_def)
  note e9 = removeTrackedTenant_effect [of example_workload 9, THEN conjunct1, rule_format, OF u]
  note e1 = removeTrackedTenant_effect [of example_workload 1, THEN conjunct2, rule_format, OF t,
      unfolded Let_def]
  have n: "9 \<notin> deletedTenants example_workload" "tenantNameIndex example_workload ''t1'' = Some 1"
    "deletedTenants example_workload = {7}"
    by (simp_all add: example_workload_def)
  have g': "tenantGroups (removeTrackedTenant 1 example_workload) ''g0'' = Some \<lparr>tg_cluster = ''c0'', tg_tenants = {}\<rparr>"
    using e1 g by (simp add: TenantData_init_def)
  have d': "dc_tenants (dataDbs_at (removeTrackedTenant 1 example_workload) ''c0'') = {2}"
    using e1 by (simp add: dataDbs_at_def TenantData_init_def)
  show ?thesis
    using u t e9 e1 n g' d' by (auto simp: TenantData_init_def)
qed

subsection \<open>Properties of the collision resolver\<close>

lemma resolveTenantCollisions_loop_acc:
  "resolveTenantCollisions_loop self cs acc =
     (fst (resolveTenantCollisions_loop self cs []), acc @ snd (resolveTenantCollisions_loop self cs []))"
proof (induction cs arbitrary: self acc)
  case Nil
  then show ?case by simp
next
  case (Cons c cs)
  obtain n d m where c: "c = (n, d, m)" by (cases c) auto
  show ?case
  proof (cases "createdTenants self d = None")
    case True
    then show ?thesis
      by (simp add: c Cons.IH [of _ "acc @ [TenantAPI_deleteTenant n d]"]
          Cons.IH [of _ "[TenantAPI_deleteTenant n d]"])
  next
    case False
    then show ?thesis
      by (simp add: c Cons.IH [of _ "acc @ [MetaclusterAPI_deleteTenant m]"]
          Cons.IH [of _ "[MetaclusterAPI_deleteTenant m]"])
  qed
qed

lemma resolveTenantCollisions_Cons:
  "resolveTenantCollisions self ((n, d, m) # cs) =
     (if createdTenants self d \<noteq> None
      then (fst (resolveTenantCollisions (removeTrackedTenant m self) cs),
            MetaclusterAPI_deleteTenant m # snd (resolveTenantCollisions (removeTrackedTenant m self) cs))
      else (fst (resolveTenantCollisions self cs),
            TenantAPI_deleteTenant n d # snd (resolveTenantCollisions self cs)))"
  unfolding resolveTenantCollisions_def
  by (simp add: removeTrackedTenant_untracked resolveTenantCollisions_loop_acc [where acc = "[_]"])

lemma resolveTenantCollisions_Nil: "resolveTenantCollisions self [] = (self, [])"
  by (simp add: resolveTenantCollisions_def)

lemma resolveTenantCollisions_length:
  "length (snd (resolveTenantCollisions self cs)) = length cs"
  by (induction cs arbitrary: self) (auto simp: resolveTenantCollisions_Nil resolveTenantCollisions_Cons)

lemma resolveTenantCollisions_created:
  "createdTenants (fst (resolveTenantCollisions self cs)) t = None \<longleftrightarrow>
     createdTenants self t = None \<or> MetaclusterAPI_deleteTenant t \<in> set (snd (resolveTenantCollisions self cs))"
  by (induction cs arbitrary: self)
     (auto simp: resolveTenantCollisions_Nil resolveTenantCollisions_Cons createdTenants_removeTrackedTenant
        split: if_splits)


lemma resolveTenantCollisions_append:
  "resolveTenantCollisions self (xs @ ys) =
     (fst (resolveTenantCollisions (fst (resolveTenantCollisions self xs)) ys),
      snd (resolveTenantCollisions self xs)
        @ snd (resolveTenantCollisions (fst (resolveTenantCollisions self xs)) ys))"
  by (induction xs arbitrary: self)
     (auto simp: resolveTenantCollisions_Nil resolveTenantCollisions_Cons)

lemma resolveTenantCollisions_tracked_mono:
  "createdTenants self t = None \<Longrightarrow> createdTenants (fst (resolveTenantCollisions self cs)) t = None"
  by (simp add: resolveTenantCollisions_created)

lemma resolveTenantCollisions_still_tracked:
  "createdTenants self t \<noteq> None \<Longrightarrow> t \<notin> (snd \<circ> snd) ` set cs \<Longrightarrow>
   createdTenants (fst (resolveTenantCollisions self cs)) t \<noteq> None"
  by (induction cs arbitrary: self)
     (auto simp: resolveTenantCollisions_Nil resolveTenantCollisions_Cons createdTenants_removeTrackedTenant
        split: if_splits)


lemma resolveTenantCollisions_fold:
  "fst (resolveTenantCollisions self cs) =
     fold removeTrackedTenant (concat (map requestTenants (snd (resolveTenantCollisions self cs)))) self"
  by (induction cs arbitrary: self)
     (auto simp: resolveTenantCollisions_Nil resolveTenantCollisions_Cons removeTrackedTenant_untracked)

text \<open>
  C4. Each name collision \<open>(n, d, m)\<close> is answered by exactly one deletion: of the management
  cluster's tenant \<open>m\<close> if the data cluster's id \<open>d\<close> is tracked in the Reference Model when
  the collision is processed, of the data cluster's tenant \<open>d\<close> otherwise; the deleted id is
  untracked afterwards. An id untracked at the start is untracked when processed; an id
  tracked at the start is tracked when processed unless it is the management id of an
  earlier collision. The Reference Model at the end is the one at the start after
  \<^verbatim>\<open>removeTrackedTenant\<close> for the id of every deletion, in their order: the deleted ids
  are not tracked, those that were tracked are in \<^verbatim>\<open>deletedTenants\<close> and are gone from the
  tenant set of their cluster and of their group, and nothing else has changed. A tracked
  data-cluster id that is the management id of no collision is tracked at the end as it
  was at the start.
\<close>

theorem resolveTenantCollisions_one_side:
  assumes run: "resolveTenantCollisions self cs = (self', reqs)"
    and i: "i < length cs"
    and c: "cs ! i = (n, d, m)"
  shows "length reqs = length cs
    \<and> reqs ! i = (if createdTenants (fst (resolveTenantCollisions self (take i cs))) d \<noteq> None
                 then MetaclusterAPI_deleteTenant m else TenantAPI_deleteTenant n d)
    \<and> (reqs ! i = MetaclusterAPI_deleteTenant m \<longrightarrow> createdTenants self' m = None)
    \<and> (reqs ! i = TenantAPI_deleteTenant n d \<longrightarrow> createdTenants self' d = None)
    \<and> (createdTenants self d = None \<longrightarrow> reqs ! i = TenantAPI_deleteTenant n d)
    \<and> (createdTenants self d \<noteq> None \<and> d \<notin> (snd \<circ> snd) ` set (take i cs)
          \<longrightarrow> reqs ! i = MetaclusterAPI_deleteTenant m)
    \<and> self' = fold removeTrackedTenant (concat (map requestTenants reqs)) self
    \<and> (let D = set (concat (map requestTenants reqs)) in
          (\<forall>t. createdTenants self' t = (if t \<in> D then None else createdTenants self t))
        \<and> deletedTenants self' = deletedTenants self \<union> {t \<in> D. createdTenants self t \<noteq> None}
        \<and> (\<forall>cl. dataDbs_at self' cl = (dataDbs_at self cl)\<lparr>dc_tenants := dc_tenants (dataDbs_at self cl)
               - {t \<in> D. \<exists>td. createdTenants self t = Some td \<and> td_cluster td = cl}\<rparr>)
        \<and> (\<forall>g. tenantGroups_at self' g = (tenantGroups_at self g)\<lparr>tg_tenants := tg_tenants (tenantGroups_at self g)
               - {t \<in> D. \<exists>td. createdTenants self t = Some td \<and> td_tenantGroup td = Some g}\<rparr>))
    \<and> self'\<lparr>createdTenants := createdTenants self, deletedTenants := deletedTenants self,
             dataDbs := dataDbs self, tenantGroups := tenantGroups self\<rparr> = self
    \<and> (reqs ! i = MetaclusterAPI_deleteTenant m \<longrightarrow>
          (\<forall>td. createdTenants self m = Some td \<longrightarrow>
             m \<in> deletedTenants self'
           \<and> m \<notin> dc_tenants (dataDbs_at self' (td_cluster td))
           \<and> (\<forall>g. td_tenantGroup td = Some g \<longrightarrow> m \<notin> tg_tenants (tenantGroups_at self' g))))
    \<and> (createdTenants self d \<noteq> None \<and> d \<notin> (snd \<circ> snd) ` set cs
          \<longrightarrow> createdTenants self' d = createdTenants self d)"
proof -
  let ?pre = "take i cs" and ?post = "drop (Suc i) cs"
  let ?s1 = "fst (resolveTenantCollisions self ?pre)"
  let ?r1 = "snd (resolveTenantCollisions self ?pre)"
  let ?D = "set (concat (map requestTenants reqs))"
  have split: "cs = ?pre @ (n, d, m) # ?post"
    using i c by (metis id_take_nth_drop)
  have len1: "length ?r1 = i"
    using i by (simp add: resolveTenantCollisions_length)
  have reqs: "reqs = snd (resolveTenantCollisions self cs)" and self': "self' = fst (resolveTenantCollisions self cs)"
    using run by simp_all
  have len: "length reqs = length cs"
    by (simp add: reqs resolveTenantCollisions_length)
  have "snd (resolveTenantCollisions self cs) = ?r1 @ snd (resolveTenantCollisions ?s1 ((n, d, m) # ?post))"
    by (subst split, subst resolveTenantCollisions_append) simp
  then have "reqs ! i = hd (snd (resolveTenantCollisions ?s1 ((n, d, m) # ?post)))"
    using len1 by (simp add: reqs nth_append resolveTenantCollisions_Cons hd_conv_nth)
  then have at_i: "reqs ! i = (if createdTenants ?s1 d \<noteq> None
                 then MetaclusterAPI_deleteTenant m else TenantAPI_deleteTenant n d)"
    by (simp add: resolveTenantCollisions_Cons)
  have mem: "reqs ! i \<in> set reqs"
    using i len by simp
  have m_gone: "reqs ! i = MetaclusterAPI_deleteTenant m \<longrightarrow> createdTenants self' m = None"
    using mem by (auto simp: self' reqs resolveTenantCollisions_created)
  have d_gone: "reqs ! i = TenantAPI_deleteTenant n d \<longrightarrow> createdTenants self' d = None"
  proof
    assume "reqs ! i = TenantAPI_deleteTenant n d"
    with at_i have "createdTenants ?s1 d = None"
      by (simp split: if_splits)
    then have "createdTenants (fst (resolveTenantCollisions ?s1 ((n, d, m) # ?post))) d = None"
      by (rule resolveTenantCollisions_tracked_mono)
    moreover have "self' = fst (resolveTenantCollisions ?s1 ((n, d, m) # ?post))"
      by (subst self', subst split, subst resolveTenantCollisions_append) simp
    ultimately show "createdTenants self' d = None" by simp
  qed
  have untracked: "createdTenants self d = None \<longrightarrow> reqs ! i = TenantAPI_deleteTenant n d"
    using at_i by (simp add: resolveTenantCollisions_tracked_mono)
  have tracked: "createdTenants self d \<noteq> None \<and> d \<notin> (snd \<circ> snd) ` set (take i cs)
      \<longrightarrow> reqs ! i = MetaclusterAPI_deleteTenant m"
    using at_i resolveTenantCollisions_still_tracked [of self d "take i cs"] by simp
  have fold: "self' = fold removeTrackedTenant (concat (map requestTenants reqs)) self"
    unfolding self' reqs by (rule resolveTenantCollisions_fold)
  have created: "\<forall>t. createdTenants self' t = (if t \<in> ?D then None else createdTenants self t)"
    by (subst fold) (simp only: fold_removeTrackedTenant_created, simp)
  have deleted: "deletedTenants self' = deletedTenants self \<union> {t \<in> ?D. createdTenants self t \<noteq> None}"
    by (subst fold) (simp only: fold_removeTrackedTenant_deleted)
  have dbs: "\<forall>cl. dataDbs_at self' cl = (dataDbs_at self cl)\<lparr>dc_tenants := dc_tenants (dataDbs_at self cl)
               - {t \<in> ?D. \<exists>td. createdTenants self t = Some td \<and> td_cluster td = cl}\<rparr>"
    by (subst fold) (simp only: fold_removeTrackedTenant_dataDbs_at, simp)
  have groups: "\<forall>g. tenantGroups_at self' g = (tenantGroups_at self g)\<lparr>tg_tenants := tg_tenants (tenantGroups_at self g)
               - {t \<in> ?D. \<exists>td. createdTenants self t = Some td \<and> td_tenantGroup td = Some g}\<rparr>"
    by (subst fold) (simp only: fold_removeTrackedTenant_tenantGroups_at, simp)
  have all: "let D = ?D in
          (\<forall>t. createdTenants self' t = (if t \<in> D then None else createdTenants self t))
        \<and> deletedTenants self' = deletedTenants self \<union> {t \<in> D. createdTenants self t \<noteq> None}
        \<and> (\<forall>cl. dataDbs_at self' cl = (dataDbs_at self cl)\<lparr>dc_tenants := dc_tenants (dataDbs_at self cl)
               - {t \<in> D. \<exists>td. createdTenants self t = Some td \<and> td_cluster td = cl}\<rparr>)
        \<and> (\<forall>g. tenantGroups_at self' g = (tenantGroups_at self g)\<lparr>tg_tenants := tg_tenants (tenantGroups_at self g)
               - {t \<in> D. \<exists>td. createdTenants self t = Some td \<and> td_tenantGroup td = Some g}\<rparr>)"
    unfolding Let_def using created deleted dbs groups by (intro conjI)
  have frame: "self'\<lparr>createdTenants := createdTenants self, deletedTenants := deletedTenants self,
             dataDbs := dataDbs self, tenantGroups := tenantGroups self\<rparr> = self"
    by (subst fold) (rule fold_removeTrackedTenant_rest)
  have m_tomb: "reqs ! i = MetaclusterAPI_deleteTenant m \<longrightarrow>
          (\<forall>td. createdTenants self m = Some td \<longrightarrow>
             m \<in> deletedTenants self'
           \<and> m \<notin> dc_tenants (dataDbs_at self' (td_cluster td))
           \<and> (\<forall>g. td_tenantGroup td = Some g \<longrightarrow> m \<notin> tg_tenants (tenantGroups_at self' g)))"
  proof (intro impI allI)
    fix td
    assume r: "reqs ! i = MetaclusterAPI_deleteTenant m" and td: "createdTenants self m = Some td"
    from r mem have "MetaclusterAPI_deleteTenant m \<in> set reqs" by simp
    then have mD: "m \<in> ?D" by force
    have 1: "m \<in> deletedTenants self'"
      using mD td by (simp add: deleted)
    have 2: "m \<notin> dc_tenants (dataDbs_at self' (td_cluster td))"
      using mD td by (simp add: dbs [rule_format])
    have 3: "\<forall>g. td_tenantGroup td = Some g \<longrightarrow> m \<notin> tg_tenants (tenantGroups_at self' g)"
      using mD td by (simp add: groups [rule_format])
    show "m \<in> deletedTenants self'
           \<and> m \<notin> dc_tenants (dataDbs_at self' (td_cluster td))
           \<and> (\<forall>g. td_tenantGroup td = Some g \<longrightarrow> m \<notin> tg_tenants (tenantGroups_at self' g))"
      using 1 2 3 by (intro conjI)
  qed
  have survive: "createdTenants self d \<noteq> None \<and> d \<notin> (snd \<circ> snd) ` set cs
          \<longrightarrow> createdTenants self' d = createdTenants self d"
  proof
    assume a: "createdTenants self d \<noteq> None \<and> d \<notin> (snd \<circ> snd) ` set cs"
    then have "createdTenants self' d \<noteq> None"
      unfolding self' by (intro resolveTenantCollisions_still_tracked) simp_all
    then show "createdTenants self' d = createdTenants self d"
      using created by (simp split: if_splits)
  qed
  show ?thesis
    using len at_i m_gone d_gone untracked tracked fold all frame m_tomb survive
    by (intro conjI)
qed

theorem resolveTenantCollisions_one_side_witness:
  "(0::nat) < length example_tenantCollisions
   \<and> example_tenantCollisions ! 0 = (''t1'', 1, 2)
   \<and> createdTenants example_workload 1 \<noteq> None
   \<and> snd (resolveTenantCollisions example_workload example_tenantCollisions) ! 0
        = MetaclusterAPI_deleteTenant 2
   \<and> createdTenants (fst (resolveTenantCollisions example_workload example_tenantCollisions)) 2 = None
   \<and> example_tenantCollisions ! 1 = (''x'', 8, 3)
   \<and> createdTenants example_workload 8 = None
   \<and> snd (resolveTenantCollisions example_workload example_tenantCollisions) ! 1
        = TenantAPI_deleteTenant ''x'' 8
   \<and> deletedTenants example_workload = {7}
   \<and> deletedTenants (fst (resolveTenantCollisions example_workload example_tenantCollisions)) = {2, 7}
   \<and> dc_tenants (dataDbs_at example_workload ''c0'') = {1, 2}
   \<and> dc_tenants (dataDbs_at (fst (resolveTenantCollisions example_workload example_tenantCollisions)) ''c0'') = {1}
   \<and> createdTenants (fst (resolveTenantCollisions example_workload example_tenantCollisions)) 1
        = createdTenants example_workload 1
   \<and> tenantNameIndex (fst (resolveTenantCollisions example_workload example_tenantCollisions))
        = tenantNameIndex example_workload"
proof -
  let ?cs = "example_tenantCollisions"
  let ?r = "resolveTenantCollisions example_workload ?cs"
  have run: "?r = (fst ?r, snd ?r)" by simp
  have i0: "(0::nat) < length ?cs" and c0: "?cs ! 0 = (''t1'', 1, 2)"
    by (simp_all add: example_tenantCollisions_def)
  have i1: "(1::nat) < length ?cs" and c1: "?cs ! 1 = (''x'', 8, 3)"
    by (simp_all add: example_tenantCollisions_def)
  have tr: "createdTenants example_workload 1 \<noteq> None \<and> 1 \<notin> (snd \<circ> snd) ` set (take 0 ?cs)"
    by (simp add: example_workload_def)
  have tr': "createdTenants example_workload 1 \<noteq> None \<and> 1 \<notin> (snd \<circ> snd) ` set ?cs"
    by (simp add: example_workload_def example_tenantCollisions_def)
  have un: "createdTenants example_workload 8 = None"
    by (simp add: example_workload_def)
  note f0 = resolveTenantCollisions_one_side [OF run i0 c0]
  note f1 = resolveTenantCollisions_one_side [OF run i1 c1]
  note tail = f0 [THEN conjunct2, THEN conjunct2, THEN conjunct2, THEN conjunct2, THEN conjunct2,
      THEN conjunct2]
  have a: "snd ?r ! 0 = MetaclusterAPI_deleteTenant 2"
    using f0 [THEN conjunct2, THEN conjunct2, THEN conjunct2, THEN conjunct2, THEN conjunct2,
        THEN conjunct1] tr by blast
  have b: "createdTenants (fst ?r) 2 = None"
    using f0 [THEN conjunct2, THEN conjunct2, THEN conjunct1] a by blast
  have c: "snd ?r ! 1 = TenantAPI_deleteTenant ''x'' 8"
    using f1 [THEN conjunct2, THEN conjunct2, THEN conjunct2, THEN conjunct2, THEN conjunct1] un
    by blast
  have len: "length (snd ?r) = 2"
    using f0 [THEN conjunct1] by (simp add: example_tenantCollisions_def)
  have reqs: "snd ?r = [MetaclusterAPI_deleteTenant 2, TenantAPI_deleteTenant ''x'' 8]"
    using len a c by (auto simp: list_eq_iff_nth_eq less_Suc_eq numeral_2_eq_2)
  have D: "set (concat (map requestTenants (snd ?r))) = {2, 8}"
    by (simp add: reqs)
  note blk = tail [THEN conjunct2, THEN conjunct1, unfolded Let_def D]
  have del0: "deletedTenants example_workload = {7}"
    by (simp add: example_workload_def)
  have db0: "dc_tenants (dataDbs_at example_workload ''c0'') = {1, 2}"
    by (simp add: example_workload_def dataDbs_at_def)
  have "{t \<in> {2, 8}. createdTenants example_workload t \<noteq> None} = {2 :: int}"
    by (auto simp: example_workload_def split: if_splits)
  then have del: "deletedTenants (fst ?r) = {2, 7}"
    using blk [THEN conjunct2, THEN conjunct1] del0 by auto
  have "{t \<in> {2, 8}. \<exists>td. createdTenants example_workload t = Some td \<and> td_cluster td = ''c0''} = {2 :: int}"
    by (auto simp: example_workload_def TenantData_init_def split: if_splits)
  then have db: "dc_tenants (dataDbs_at (fst ?r) ''c0'') = {1}"
    using blk [THEN conjunct2, THEN conjunct2, THEN conjunct1, rule_format, of "''c0''"] db0
    by auto
  have sv: "createdTenants (fst ?r) 1 = createdTenants example_workload 1"
    using f0 [THEN conjunct2, THEN conjunct2, THEN conjunct2, THEN conjunct2, THEN conjunct2,
        THEN conjunct2, THEN conjunct2, THEN conjunct2, THEN conjunct2, THEN conjunct2] tr'
    by blast
  have "(fst ?r)\<lparr>createdTenants := createdTenants example_workload,
           deletedTenants := deletedTenants example_workload,
           dataDbs := dataDbs example_workload, tenantGroups := tenantGroups example_workload\<rparr>
        = example_workload"
    using tail [THEN conjunct2, THEN conjunct2, THEN conjunct1] .
  then have "tenantNameIndex ((fst ?r)\<lparr>createdTenants := createdTenants example_workload,
           deletedTenants := deletedTenants example_workload,
           dataDbs := dataDbs example_workload, tenantGroups := tenantGroups example_workload\<rparr>)
        = tenantNameIndex example_workload"
    by simp
  then have ni: "tenantNameIndex (fst ?r) = tenantNameIndex example_workload"
    by simp
  show ?thesis
    using i0 c0 c1 tr un a b c del0 del db0 db sv ni by (intro conjI) simp_all
qed
















subsection \<open>Properties of the restore attempts\<close>

lemma compareDataTenants_nth:
  "compareDataTenants i b a \<Longrightarrow> i \<le> j \<Longrightarrow> j < length b \<Longrightarrow> b ! j = a ! j"
proof (induction i b a rule: compareDataTenants.induct)
  case (1 i b a)
  from "1.prems" have i: "i < length b" by simp
  from "1.prems"(1) i have here: "b ! i = a ! i" and rest: "compareDataTenants (i + 1) b a"
    by (simp_all add: compareDataTenants.simps [of i] prod_eq_iff split: if_splits)
  show ?case
  proof (cases "j = i")
    case True
    with here show ?thesis by simp
  next
    case False
    with "1.prems" have "i + 1 \<le> j" by simp
    with "1.IH" i here rest "1.prems"(3) show ?thesis by (simp add: prod_eq_iff)
  qed
qed

lemma compareDataTenants_refl: "compareDataTenants i b b"
proof (induction "length b - i" arbitrary: i)
  case 0
  then show ?case by (simp add: compareDataTenants.simps [of i])
next
  case (Suc n)
  then have "n = length b - (i + 1)" by simp
  from Suc.hyps(1) [OF this] Suc.hyps(2) show ?case
    by (simp add: compareDataTenants.simps [of i])
qed

lemma compareDataTenants_iff:
  "length b = length a \<and> compareDataTenants 0 b a \<longleftrightarrow> b = a"
proof
  assume h: "length b = length a \<and> compareDataTenants 0 b a"
  then show "b = a"
    by (intro nth_equalityI) (auto dest: compareDataTenants_nth)
next
  assume "b = a"
  then show "length b = length a \<and> compareDataTenants 0 b a"
    by (simp add: compareDataTenants_refl)
qed

lemma getDataClusterTenants_Inr:
  "getDataClusterTenants api K c w = Inr xs \<Longrightarrow> xs = api_tenantMap api c w"
  by (auto simp: getDataClusterTenants_def Let_def split: if_splits)

lemma restoreManagementCluster_compare_Inr:
  assumes "restoreManagementCluster_compare api K cn before caught = Inr r"
  shows "r = caught \<and> getDataClusterTenants api K cn (snd (snd caught)) = Inr before"
proof -
  obtain c m w where caught: "caught = (c, m, w)" by (cases caught) auto
  from assms obtain after where
    a: "getDataClusterTenants api K cn w = Inr after"
    and l: "length before = length after"
    and cmp: "compareDataTenants 0 before after"
    and r: "r = (c, m, w)"
    unfolding restoreManagementCluster_compare_def caught
    by (auto split: sum.splits if_splits)
  from l cmp have "before = after"
    using compareDataTenants_iff by blast
  with a r caught show ?thesis by simp
qed

text \<open>
  C1. An attempt of \<^verbatim>\<open>restoreManagementCluster\<close> on a data cluster that goes on, with the
  attach completed or failed by a collision, has found the data cluster's tenant map after
  the attempt identical, entry by entry and in order, to the one before it: the two
  snapshots are compared by the assertions of the attempt, and a difference ends the run
  with \<^verbatim>\<open>internal_error\<close>.
\<close>

theorem restoreManagementCluster_attempt_unchanged:
  assumes "restoreManagementCluster_attempt api K clusterName collisions coinflip force1 force2 messages w
             = Inr (completed, messages', w')"
  shows "api_tenantMap api clusterName w' = api_tenantMap api clusterName w
       \<and> getDataClusterTenants api K clusterName w' = getDataClusterTenants api K clusterName w"
proof -
  from assms obtain before caught where
    b: "getDataClusterTenants api K clusterName w = Inr before"
    and c: "restoreManagementCluster_compare api K clusterName before caught = Inr (completed, messages', w')"
    unfolding restoreManagementCluster_attempt_def
    by (auto split: sum.splits)
  from restoreManagementCluster_compare_Inr [OF c]
  have a: "getDataClusterTenants api K clusterName w' = Inr before"
    by auto
  with b getDataClusterTenants_Inr [OF a] getDataClusterTenants_Inr [OF b] show ?thesis
    by simp
qed

theorem restoreManagementCluster_attempt_unchanged_witness:
  "restoreManagementCluster_attempt (example_api None) 10 ''c0'' ([], []) True False True []
       ([(1, example_entry)], 0)
     = Inr (True, [''tenant renamed''], ([(1, example_entry)], 1))
   \<and> api_tenantMap (example_api None) ''c0'' ([(1, example_entry)], 1)
     = api_tenantMap (example_api None) ''c0'' ([(1, example_entry)], 0)
   \<and> restoreManagementCluster_attempt (example_api (Some tenant_already_exists)) 10 ''c0''
       ([(''t1'', 1, 2)], []) False False True [] ([(1, example_entry)], 0)
     = Inr (False, [''tenant renamed''], ([(1, example_entry)], 1))
   \<and> api_tenantMap (example_api (Some tenant_already_exists)) ''c0'' ([(1, example_entry)], 1)
     = api_tenantMap (example_api (Some tenant_already_exists)) ''c0'' ([(1, example_entry)], 0)"
proof -
  have c: "compareDataTenants 0 [(1, example_entry)] [(1, example_entry)]"
    by (rule compareDataTenants_refl)
  have a: "restoreManagementCluster_attempt (example_api None) 10 ''c0'' ([], []) True False True []
       ([(1, example_entry)], 0)
     = Inr (True, [''tenant renamed''], ([(1, example_entry)], 1))"
    by (simp add: restoreManagementCluster_attempt_def restoreManagementCluster_try_def
        restoreManagementCluster_catch_def restoreManagementCluster_compare_def
        example_api_def getDataClusterTenants_def c)
  have b: "restoreManagementCluster_attempt (example_api (Some tenant_already_exists)) 10 ''c0''
       ([(''t1'', 1, 2)], []) False False True [] ([(1, example_entry)], 0)
     = Inr (False, [''tenant renamed''], ([(1, example_entry)], 1))"
    by (simp add: restoreManagementCluster_attempt_def restoreManagementCluster_try_def
        restoreManagementCluster_catch_def restoreManagementCluster_compare_def
        example_api_def getDataClusterTenants_def c)
  show ?thesis
    using a b restoreManagementCluster_attempt_unchanged [OF a]
      restoreManagementCluster_attempt_unchanged [OF b]
    by blast
qed

lemma logged_simps:
  "api_clearDatabase (logged api) c (w, l) =
     (case api_clearDatabase api c w of Inl e \<Rightarrow> Inl e | Inr w' \<Rightarrow> Inr (w', l))"
  "api_backupRestore (logged api) c url (w, l) =
     (case api_backupRestore api c url w of Inl e \<Rightarrow> Inl e | Inr w' \<Rightarrow> Inr (w', l))"
  "api_restoreCluster (logged api) c a d f messages (w, l) =
     (case api_restoreCluster api c a d f messages w of
        (err, messages', w') \<Rightarrow> (err, messages', (w', l @ [RestoreCluster c a d f messages err messages'])))"
  "api_removeCluster (logged api) c (w, l) =
     (case api_removeCluster api c w of (err, w') \<Rightarrow> (err, (w', l)))"
  "api_tenantMap (logged api) c (w, l) = api_tenantMap api c w"
  by (simp_all add: logged_def)

lemma getDataClusterTenants_logged:
  "getDataClusterTenants (logged api) K c (w, l) = getDataClusterTenants api K c w"
  by (simp add: getDataClusterTenants_def logged_simps)

lemma restoreDataCluster_logged:
  assumes "restoreDataCluster (logged api) cn url True force coin self (w, []) = Inr (self', (w', l))"
  shows "\<exists>dryOut out.
           l = (if coin then [RestoreCluster cn True True force [] None dryOut] else [])
               @ [RestoreCluster cn True False force [] None out]
         \<and> restoreHasMessages (dataDbs_at self' cn) = (out \<noteq> [])
         \<and> restored (dataDbs_at self' cn)"
  using assms
  unfolding restoreDataCluster_def Let_def dataDbs_at_def
  by (auto simp: logged_simps split: sum.splits prod.splits option.splits if_splits)

lemma restoreManagementCluster_try_logged:
  assumes "restoreManagementCluster_try (logged api) cn collisions coin f1 f2 messages (w, [])
             = (err, messages', (w', l))"
  shows "(\<exists>e. coin \<and> err = Some e
              \<and> l = [RestoreCluster cn False True f1 messages (Some e) messages'])
       \<or> (\<exists>dryOut err2.
              l = (if coin then [RestoreCluster cn False True f1 messages None dryOut] else [])
                  @ [RestoreCluster cn False False f2 (if coin then [] else messages) err2 messages']
            \<and> (err = None) = (err2 = None \<and> fst collisions = [] \<and> snd collisions = [])
            \<and> (err2 \<noteq> None \<longrightarrow> err = err2)
            \<and> (err2 = None \<and> err \<noteq> None \<longrightarrow> err = Some internal_error))"
  using assms
  unfolding restoreManagementCluster_try_def
  by (auto simp: logged_simps split: prod.splits option.splits if_splits)

lemma restoreManagementCluster_catch_logged:
  assumes "restoreManagementCluster_catch (logged api) cn collisions (err, m, (w, l))
             = Inr (completed, m', (w', l'))"
  shows "l' = l \<and> m' = m \<and> completed = (err = None) \<and> err \<noteq> Some internal_error"
  using assms
  unfolding restoreManagementCluster_catch_def Let_def
  by (auto simp: logged_simps split: prod.splits option.splits if_splits)

lemma restoreManagementCluster_attempt_logged:
  assumes "restoreManagementCluster_attempt (logged api) K cn collisions coin f1 f2 messages (w, [])
             = Inr (completed, messages', (w', l))"
  shows "(\<exists>e. coin \<and> \<not> completed
              \<and> l = [RestoreCluster cn False True f1 messages (Some e) messages'])
       \<or> (\<exists>dryOut err.
              l = (if coin then [RestoreCluster cn False True f1 messages None dryOut] else [])
                  @ [RestoreCluster cn False False f2 (if coin then [] else messages) err messages']
            \<and> completed = (err = None))"
proof -
  obtain err m1 w1 l1 where
    t: "restoreManagementCluster_try (logged api) cn collisions coin f1 f2 messages (w, [])
          = (err, m1, (w1, l1))"
    by (metis prod.exhaust)
  from assms obtain before caught where
    c: "restoreManagementCluster_catch (logged api) cn collisions (err, m1, (w1, l1)) = Inr caught"
    and cmp: "restoreManagementCluster_compare (logged api) K cn before caught
                = Inr (completed, messages', (w', l))"
    unfolding restoreManagementCluster_attempt_def t
    by (auto split: sum.splits)
  from restoreManagementCluster_compare_Inr [OF cmp] have caught: "caught = (completed, messages', (w', l))"
    by simp
  from restoreManagementCluster_catch_logged [OF c [unfolded caught]]
  have k: "l = l1" "messages' = m1" "completed = (err = None)" "err \<noteq> Some internal_error"
    by simp_all
  from restoreManagementCluster_try_logged [OF t] k show ?thesis
    by auto
qed

lemma restoreDataCluster_logged_same:
  "(case restoreDataCluster (logged api) cn url add force coin self (w, l0) of
      Inl e \<Rightarrow> Inl e | Inr (s, w', l) \<Rightarrow> Inr (s, w'))
   = restoreDataCluster api cn url add force coin self w"
  unfolding restoreDataCluster_def Let_def
  by (auto simp: logged_simps split: sum.splits prod.splits option.splits if_splits)

lemma restoreManagementCluster_try_logged_same:
  "(case restoreManagementCluster_try (logged api) cn collisions coin f1 f2 messages (w, l0) of
      (err, m, w', l) \<Rightarrow> (err, m, w'))
   = restoreManagementCluster_try api cn collisions coin f1 f2 messages w"
  unfolding restoreManagementCluster_try_def
  by (auto simp: logged_simps split: prod.splits option.splits if_splits)

lemma restoreManagementCluster_catch_logged_same:
  "(case restoreManagementCluster_catch (logged api) cn collisions (err, m, (w, l0)) of
      Inl e \<Rightarrow> Inl e | Inr (c, m', w', l) \<Rightarrow> Inr (c, m', w'))
   = restoreManagementCluster_catch api cn collisions (err, m, w)"
  unfolding restoreManagementCluster_catch_def Let_def
  by (auto simp: logged_simps split: prod.splits option.splits if_splits)

lemma restoreManagementCluster_compare_logged_same:
  "(case restoreManagementCluster_compare (logged api) K cn before (c, m, (w, l0)) of
      Inl e \<Rightarrow> Inl e | Inr (c', m', w', l) \<Rightarrow> Inr (c', m', w'))
   = restoreManagementCluster_compare api K cn before (c, m, w)"
  unfolding restoreManagementCluster_compare_def
  by (auto simp: getDataClusterTenants_logged split: sum.splits)

lemma restoreManagementCluster_attempt_logged_same:
  "(case restoreManagementCluster_attempt (logged api) K cn collisions coin f1 f2 messages (w, l0) of
      Inl e \<Rightarrow> Inl e | Inr (c, m, w', l) \<Rightarrow> Inr (c, m, w'))
   = restoreManagementCluster_attempt api K cn collisions coin f1 f2 messages w"
proof (cases "getDataClusterTenants api K cn w")
  case (Inl e)
  then show ?thesis
    by (simp add: restoreManagementCluster_attempt_def getDataClusterTenants_logged)
next
  case (Inr before)
  obtain err m1 w1 l1 where
    t: "restoreManagementCluster_try (logged api) cn collisions coin f1 f2 messages (w, l0)
          = (err, m1, (w1, l1))"
    by (metis prod.exhaust)
  with restoreManagementCluster_try_logged_same [of api cn collisions coin f1 f2 messages w l0]
  have t': "restoreManagementCluster_try api cn collisions coin f1 f2 messages w = (err, m1, w1)"
    by simp
  show ?thesis
  proof (cases "restoreManagementCluster_catch (logged api) cn collisions (err, m1, (w1, l1))")
    case (Inl e)
    with restoreManagementCluster_catch_logged_same [of api cn collisions err m1 w1 l1]
    have "restoreManagementCluster_catch api cn collisions (err, m1, w1) = Inl e"
      by simp
    with Inl Inr t t' show ?thesis
      by (simp add: restoreManagementCluster_attempt_def getDataClusterTenants_logged)
  next
    case c: (Inr caught)
    obtain c1 m2 w2 l2 where caught: "caught = (c1, m2, (w2, l2))"
      by (metis prod.exhaust)
    with c restoreManagementCluster_catch_logged_same [of api cn collisions err m1 w1 l1]
    have c': "restoreManagementCluster_catch api cn collisions (err, m1, w1) = Inr (c1, m2, w2)"
      by simp
    from restoreManagementCluster_compare_logged_same [of api K cn before c1 m2 w2 l2]
    show ?thesis
      using Inr t t' c c' caught
      by (simp add: restoreManagementCluster_attempt_def getDataClusterTenants_logged)
  qed
qed

text \<open>
  C8, as amended. In a reattachment by \<^verbatim>\<open>restoreDataCluster\<close> that ends normally, the real
  attach is made, and a dry run is made before it exactly when the coin flip says so; both
  get an empty message vector, and \<^verbatim>\<open>restoreHasMessages\<close> tells whether the real attach left
  messages. In an attempt of \<^verbatim>\<open>restoreManagementCluster\<close> that goes on, either the dry run
  chosen by the coin flip threw and no real attach was made, or the real attach was made,
  after the dry run if the coin flip chose one, and then with an empty message vector; the
  attempt is completed exactly when the real attach did not throw.
\<close>

theorem dry_run_on_coinflip:
  "(restoreDataCluster (logged api) cn url True force coin self (w, []) = Inr (self', (w', l)) \<longrightarrow>
      (\<exists>dryOut out.
           l = (if coin then [RestoreCluster cn True True force [] None dryOut] else [])
               @ [RestoreCluster cn True False force [] None out]
         \<and> restoreHasMessages (dataDbs_at self' cn) = (out \<noteq> [])
         \<and> restored (dataDbs_at self' cn)))
   \<and> (restoreManagementCluster_attempt (logged api) K cn2 collisions coin2 f1 f2 messages (w2, [])
             = Inr (completed, messages', (w2', l2)) \<longrightarrow>
        (\<exists>e. coin2 \<and> \<not> completed
              \<and> l2 = [RestoreCluster cn2 False True f1 messages (Some e) messages'])
       \<or> (\<exists>dryOut err.
              l2 = (if coin2 then [RestoreCluster cn2 False True f1 messages None dryOut] else [])
                  @ [RestoreCluster cn2 False False f2 (if coin2 then [] else messages) err messages']
            \<and> completed = (err = None)))"
  using restoreDataCluster_logged [of api cn url force coin self w self' w' l]
    restoreManagementCluster_attempt_logged [of api K cn2 collisions coin2 f1 f2 messages w2 completed
      messages' w2' l2]
  by blast

lemma example_runs:
  "restoreDataCluster (logged (example_api None)) ''c0'' ''url'' True False True example_workload
       (([], 0), [])
     = Inr (example_restored, ([(1, example_entry)], 1),
            [RestoreCluster ''c0'' True True False [] None [''dry run: tenant renamed''],
             RestoreCluster ''c0'' True False False [] None [''tenant renamed'']])"
  "restoreDataCluster (logged (example_api None)) ''c0'' ''url'' True False False example_workload
       (([], 0), [])
     = Inr (example_restored, ([(1, example_entry)], 1),
            [RestoreCluster ''c0'' True False False [] None [''tenant renamed'']])"
  "restoreManagementCluster_attempt (logged (example_api None)) 10 ''c0'' ([], []) True False True
       [''old''] (([(1, example_entry)], 0), [])
     = Inr (True, [''tenant renamed''], ([(1, example_entry)], 1),
            [RestoreCluster ''c0'' False True False [''old''] None [''old'', ''dry run: tenant renamed''],
             RestoreCluster ''c0'' False False True [] None [''tenant renamed'']])"
  "restoreManagementCluster_attempt (logged (example_api None)) 10 ''c0'' ([], []) False False True
       [] (([(1, example_entry)], 0), [])
     = Inr (True, [''tenant renamed''], ([(1, example_entry)], 1),
            [RestoreCluster ''c0'' False False True [] None [''tenant renamed'']])"
  by (simp_all add: restoreDataCluster_def restoreManagementCluster_attempt_def
      restoreManagementCluster_try_def restoreManagementCluster_catch_def
      restoreManagementCluster_compare_def logged_def
      example_api_def example_restored_def example_workload_def dataDbs_at_def
      getDataClusterTenants_def compareDataTenants_refl)

theorem dry_run_on_coinflip_witness:
  "restoreDataCluster (logged (example_api None)) ''c0'' ''url'' True False True example_workload
       (([], 0), [])
     = Inr (example_restored, ([(1, example_entry)], 1),
            [RestoreCluster ''c0'' True True False [] None [''dry run: tenant renamed''],
             RestoreCluster ''c0'' True False False [] None [''tenant renamed'']])
   \<and> restoreHasMessages (dataDbs_at example_restored ''c0'')
   \<and> restored (dataDbs_at example_restored ''c0'')
   \<and> restoreManagementCluster_attempt (logged (example_api None)) 10 ''c0'' ([], []) True False True
       [''old''] (([(1, example_entry)], 0), [])
     = Inr (True, [''tenant renamed''], ([(1, example_entry)], 1),
            [RestoreCluster ''c0'' False True False [''old''] None [''old'', ''dry run: tenant renamed''],
             RestoreCluster ''c0'' False False True [] None [''tenant renamed'']])"
  using example_runs(1) example_runs(3)
    dry_run_on_coinflip [where api = "example_api None" and cn = "''c0''" and url = "''url''"
      and force = False and coin = True and self = example_workload and w = "([], 0)"
      and self' = example_restored and w' = "([(1, example_entry)], 1)"
      and l = "[RestoreCluster ''c0'' True True False [] None [''dry run: tenant renamed''],
             RestoreCluster ''c0'' True False False [] None [''tenant renamed'']]"
      and K = 10 and ?cn2.0 = "''c0''" and collisions = "([], [])" and ?coin2.0 = True
      and ?f1.0 = False and ?f2.0 = True and messages = "[''old'']"
      and ?w2.0 = "([(1, example_entry)], 0)" and completed = True
      and messages' = "[''tenant renamed'']" and w2' = "([(1, example_entry)], 1)"
      and ?l2.0 = "[RestoreCluster ''c0'' False True False [''old''] None [''old'', ''dry run: tenant renamed''],
             RestoreCluster ''c0'' False False True [] None [''tenant renamed'']]"]
  by auto

text \<open>
  The claim as stated, that every reattachment and every attempt makes a dry run first,
  fails when the coin flip is false: the only \<^verbatim>\<open>restoreCluster\<close> call is the real one.
\<close>

theorem dry_run_always_counterexample:
  "\<not> isl (restoreDataCluster (logged (example_api None)) ''c0'' ''url'' True False False
            example_workload (([], 0), []))
   \<and> restoreCluster_calls (restoreDataCluster (logged (example_api None)) ''c0'' ''url'' True False
        False example_workload (([], 0), []))
      = [RestoreCluster ''c0'' True False False [] None [''tenant renamed'']]
   \<and> \<not> isDryRun (RestoreCluster ''c0'' True False False [] None [''tenant renamed''])
   \<and> \<not> isl (restoreManagementCluster_attempt (logged (example_api None)) 10 ''c0'' ([], []) False
            False True [] (([(1, example_entry)], 0), []))
   \<and> attempt_calls (restoreManagementCluster_attempt (logged (example_api None)) 10 ''c0''
        ([], []) False False True [] (([(1, example_entry)], 0), []))
      = [RestoreCluster ''c0'' False False True [] None [''tenant renamed'']]
   \<and> \<not> isDryRun (RestoreCluster ''c0'' False False True [] None [''tenant renamed''])"
  by (simp add: example_runs restoreCluster_calls_def attempt_calls_def)


subsection \<open>Properties of the consistency checks\<close>

lemma checkDataCluster_tracked_Inr:
  "checkDataCluster_tracked self cn tm ids n = Inr m \<Longrightarrow>
     (\<forall>t \<in> set ids. trackedTenantChecked self cn tm t)
     \<and> m = n + int (length (filter (\<lambda>t. tm t \<noteq> None) ids))"
proof (induction ids arbitrary: n)
  case Nil
  then show ?case by simp
next
  case (Cons t ids)
  show ?case
  proof (cases "createTime (createdTenants_at self t) = BEFORE_BACKUP")
    case True
    with Cons.prems obtain entry where e: "tm t = Some entry"
      and rest: "checkDataCluster_tracked self cn tm ids (n + 1) = Inr m"
      and here: "trackedTenantChecked self cn tm t"
      by (auto simp: Let_def trackedTenantChecked_def split: option.splits if_splits)
    from Cons.IH [OF rest] e here show ?thesis by simp
  next
    case nb: False
    show ?thesis
    proof (cases "createTime (createdTenants_at self t) = AFTER_BACKUP")
      case True
      with nb Cons.prems have e: "tm t = None"
        and rest: "checkDataCluster_tracked self cn tm ids n = Inr m"
        by (auto simp: Let_def split: if_splits)
      from Cons.IH [OF rest] e True show ?thesis
        by (simp add: trackedTenantChecked_def)
    next
      case False
      with nb Cons.prems have
        rest: "checkDataCluster_tracked self cn tm ids (if tm t \<noteq> None then n + 1 else n) = Inr m"
        by (auto simp: Let_def split: if_splits)
      from Cons.IH [OF rest] nb False show ?thesis
        by (auto simp: trackedTenantChecked_def)
    qed
  qed
qed

lemma checkDataCluster_unexpected_Inr:
  "checkDataCluster_unexpected self cd keys n = Inr m \<Longrightarrow>
     (\<forall>t \<in> set keys. t \<notin> dc_tenants cd \<longrightarrow> recoverManagementCluster self \<and> t \<in> deletedTenants self)
     \<and> m = n + int (length (filter (\<lambda>t. t \<notin> dc_tenants cd) keys))"
proof (induction keys arbitrary: n)
  case Nil
  then show ?case by simp
next
  case (Cons t keys)
  show ?case
  proof (cases "t \<in> dc_tenants cd")
    case True
    with Cons.prems have "checkDataCluster_unexpected self cd keys n = Inr m" by simp
    from Cons.IH [OF this] True show ?thesis by simp
  next
    case False
    with Cons.prems have here: "recoverManagementCluster self" "t \<in> deletedTenants self"
      and rest: "checkDataCluster_unexpected self cd keys (n + 1) = Inr m"
      by (auto split: if_splits)
    from Cons.IH [OF rest] False here show ?thesis by simp
  qed
qed

lemma checkDataCluster_restored_Inr:
  assumes "checkDataCluster K self cn cd reg content = Inr ()" and "restored cd"
  shows "take (K + 1) content = content"
    and "\<exists>m. checkDataCluster_tracked self cn (map_of content) (sorted_list_of_set (dc_tenants cd)) 0 = Inr m
            \<and> checkDataCluster_unexpected self cd (sort (remdups (map fst content))) 0
                 = Inr (int (length (remdups (map fst content))) - m)"
proof -
  from assms have len: "length (take (K + 1) content) \<le> K"
    by (auto simp: checkDataCluster_def Let_def split: if_splits)
  then show t: "take (K + 1) content = content"
    by (simp add: min_def split: if_splits)
  from assms show "\<exists>m. checkDataCluster_tracked self cn (map_of content) (sorted_list_of_set (dc_tenants cd)) 0 = Inr m
            \<and> checkDataCluster_unexpected self cd (sort (remdups (map fst content))) 0
                 = Inr (int (length (remdups (map fst content))) - m)"
    unfolding checkDataCluster_def Let_def t
    by (auto split: if_splits sum.splits)
qed

lemma AccessTime_le_BEFORE_BACKUP:
  "AccessTime_le a BEFORE_BACKUP \<longleftrightarrow> \<not> (a = DURING_BACKUP \<or> a = AFTER_BACKUP)"
  by (cases a) (simp_all add: AccessTime_le_def)

lemma checkDataCluster_examples:
  "checkDataCluster 10 example_workload ''c1'' example_c1 (Some METACLUSTER_DATA) [(3, example_entry3)] = Inr ()"
  "checkDataCluster 10 example_workload ''c1'' example_c1 (Some METACLUSTER_DATA) [] = Inr ()"
  "checkDataCluster 10 example_workload ''c0'' example_c0 (Some METACLUSTER_DATA)
     example_tenantMap_undeleted = Inr ()"
  "checkDataCluster 10 example_renamed ''c0'' example_c0 (Some METACLUSTER_DATA)
     example_tenantMap_backup = Inr ()"
  "checkDataCluster 10 example_renamed_before ''c0'' example_c0 (Some METACLUSTER_DATA)
     example_tenantMap_backup = Inl internal_error"
  by (simp_all add: checkDataCluster_def example_workload_def example_c0_def example_c1_def
      example_renamed_def example_renamed_before_def
      example_entry_def example_entry2_def example_entry3_def example_entry7_def
      example_tenantMap_backup_def example_tenantMap_undeleted_def
      createdTenants_at_def TenantData_init_def AccessTime_le_def)

text \<open>
  C2. When the check of a restored data cluster passes, every tenant tracked for the cluster
  with creation time \<^verbatim>\<open>AFTER_BACKUP\<close> is absent from the cluster's tenant map and every one
  with \<^verbatim>\<open>BEFORE_BACKUP\<close> is present; the counter of expected tenants is the number of tracked
  tenants that are present, the counter of unexpected tenants is the number of untracked ids
  in the map, all of them deleted tenants, and the two add up to the size of the map. A
  tenant created \<^verbatim>\<open>DURING_BACKUP\<close> may be present or absent: the check passes on an example
  of each.
\<close>

theorem checkDataCluster_classifies:
  assumes fin: "finite (dc_tenants clusterData)"
    and res: "restored clusterData"
    and pass: "checkDataCluster K self cn clusterData reg content = Inr ()"
  shows "(\<forall>t \<in> dc_tenants clusterData.
            (createTime (createdTenants_at self t) = AFTER_BACKUP \<longrightarrow> map_of content t = None)
          \<and> (createTime (createdTenants_at self t) = BEFORE_BACKUP \<longrightarrow> map_of content t \<noteq> None))
       \<and> (\<exists>expectedTenantCount unexpectedTenants.
             checkDataCluster_tracked self cn (map_of content) (sorted_list_of_set (dc_tenants clusterData)) 0
               = Inr expectedTenantCount
           \<and> checkDataCluster_unexpected self clusterData (sort (remdups (map fst content))) 0
               = Inr unexpectedTenants
           \<and> expectedTenantCount = int (card {t \<in> dc_tenants clusterData. map_of content t \<noteq> None})
           \<and> unexpectedTenants = int (card {t \<in> dom (map_of content). t \<notin> dc_tenants clusterData})
           \<and> int (card (dom (map_of content))) = expectedTenantCount + unexpectedTenants)
       \<and> {t \<in> dom (map_of content). t \<notin> dc_tenants clusterData} \<subseteq> deletedTenants self
       \<and> (\<exists>self' cd' content' t. restored cd' \<and> t \<in> dc_tenants cd'
             \<and> checkDataCluster 10 self' ''c1'' cd' (Some METACLUSTER_DATA) content' = Inr ()
             \<and> createTime (createdTenants_at self' t) = DURING_BACKUP \<and> map_of content' t \<noteq> None)
       \<and> (\<exists>self' cd' content' t. restored cd' \<and> t \<in> dc_tenants cd'
             \<and> checkDataCluster 10 self' ''c1'' cd' (Some METACLUSTER_DATA) content' = Inr ()
             \<and> createTime (createdTenants_at self' t) = DURING_BACKUP \<and> map_of content' t = None)"
proof -
  let ?tm = "map_of content"
  let ?ids = "sorted_list_of_set (dc_tenants clusterData)"
  let ?keys = "sort (remdups (map fst content))"
  from checkDataCluster_restored_Inr [OF pass res] obtain m where
    tr: "checkDataCluster_tracked self cn ?tm ?ids 0 = Inr m"
    and un: "checkDataCluster_unexpected self clusterData ?keys 0
               = Inr (int (length (remdups (map fst content))) - m)"
    by blast
  from checkDataCluster_tracked_Inr [OF tr] fin
  have each: "\<forall>t \<in> dc_tenants clusterData. trackedTenantChecked self cn ?tm t"
    and m: "m = int (length (filter (\<lambda>t. ?tm t \<noteq> None) ?ids))"
    by simp_all
  from checkDataCluster_unexpected_Inr [OF un]
  have del: "\<forall>t \<in> set ?keys. t \<notin> dc_tenants clusterData \<longrightarrow> t \<in> deletedTenants self"
    and u: "int (length (remdups (map fst content))) - m
              = int (length (filter (\<lambda>t. t \<notin> dc_tenants clusterData) ?keys))"
    by simp_all
  have keys: "set ?keys = dom ?tm"
    by (simp add: dom_map_of_conv_image_fst)
  have dk: "distinct ?keys" by simp
  have di: "distinct ?ids" by simp
  have "length (filter (\<lambda>t. ?tm t \<noteq> None) ?ids) = card {t \<in> set ?ids. ?tm t \<noteq> None}"
    using di by (simp add: distinct_card [symmetric] del: set_sorted_list_of_set)
  then have m': "m = int (card {t \<in> dc_tenants clusterData. ?tm t \<noteq> None})"
    using m fin by simp
  have "length (filter (\<lambda>t. t \<notin> dc_tenants clusterData) ?keys)
          = card {t \<in> set ?keys. t \<notin> dc_tenants clusterData}"
    using dk by (simp add: distinct_card [symmetric])
  then have u': "int (length (remdups (map fst content))) - m
                   = int (card {t \<in> dom ?tm. t \<notin> dc_tenants clusterData})"
    using u keys by simp
  have size: "length (remdups (map fst content)) = card (dom ?tm)"
    by (simp add: dom_map_of_conv_image_fst length_remdups_card_conv)
  have a: "\<forall>t \<in> dc_tenants clusterData.
            (createTime (createdTenants_at self t) = AFTER_BACKUP \<longrightarrow> ?tm t = None)
          \<and> (createTime (createdTenants_at self t) = BEFORE_BACKUP \<longrightarrow> ?tm t \<noteq> None)"
    using each by (auto simp: trackedTenantChecked_def Let_def)
  have b: "\<exists>expectedTenantCount unexpectedTenants.
             checkDataCluster_tracked self cn ?tm ?ids 0 = Inr expectedTenantCount
           \<and> checkDataCluster_unexpected self clusterData ?keys 0 = Inr unexpectedTenants
           \<and> expectedTenantCount = int (card {t \<in> dc_tenants clusterData. ?tm t \<noteq> None})
           \<and> unexpectedTenants = int (card {t \<in> dom ?tm. t \<notin> dc_tenants clusterData})
           \<and> int (card (dom ?tm)) = expectedTenantCount + unexpectedTenants"
    using tr un m' u' size by (intro exI [of _ m] exI [of _ "int (length (remdups (map fst content))) - m"]) simp
  have "{t \<in> set ?keys. t \<notin> dc_tenants clusterData} \<subseteq> deletedTenants self"
    using del by blast
  then have c: "{t \<in> dom ?tm. t \<notin> dc_tenants clusterData} \<subseteq> deletedTenants self"
    by (simp only: keys)
  have e3: "createTime (createdTenants_at example_workload 3) = DURING_BACKUP"
    by (simp add: example_workload_def createdTenants_at_def TenantData_init_def)
  have c1: "restored example_c1" "3 \<in> dc_tenants example_c1"
    by (simp_all add: example_c1_def)
  have d1: "\<exists>self' cd' content' t. restored cd' \<and> t \<in> dc_tenants cd'
             \<and> checkDataCluster 10 self' ''c1'' cd' (Some METACLUSTER_DATA) content' = Inr ()
             \<and> createTime (createdTenants_at self' t) = DURING_BACKUP \<and> map_of content' t \<noteq> None"
    by (rule exI [of _ example_workload], rule exI [of _ example_c1],
        rule exI [of _ "[(3, example_entry3)]"], rule exI [of _ 3])
       (simp add: checkDataCluster_examples e3 c1)
  have d2: "\<exists>self' cd' content' t. restored cd' \<and> t \<in> dc_tenants cd'
             \<and> checkDataCluster 10 self' ''c1'' cd' (Some METACLUSTER_DATA) content' = Inr ()
             \<and> createTime (createdTenants_at self' t) = DURING_BACKUP \<and> map_of content' t = None"
    by (rule exI [of _ example_workload], rule exI [of _ example_c1],
        rule exI [of _ "[]"], rule exI [of _ 3])
       (simp add: checkDataCluster_examples e3 c1)
  show ?thesis
    using a b c d1 d2 by blast
qed

theorem checkDataCluster_classifies_witness:
  "finite (dc_tenants example_c0)
   \<and> restored example_c0
   \<and> checkDataCluster 10 example_workload ''c0'' example_c0 (Some METACLUSTER_DATA)
        example_tenantMap_undeleted = Inr ()
   \<and> 1 \<in> dc_tenants example_c0
   \<and> createTime (createdTenants_at example_workload 1) = BEFORE_BACKUP
   \<and> map_of example_tenantMap_undeleted 1 \<noteq> None
   \<and> {t \<in> dom (map_of example_tenantMap_undeleted).
         t \<notin> dc_tenants example_c0} \<subseteq> deletedTenants example_workload"
proof -
  let ?content = "example_tenantMap_undeleted"
  have fin: "finite (dc_tenants example_c0)" and res: "restored example_c0"
    and one: "1 \<in> dc_tenants example_c0"
    by (simp_all add: example_c0_def)
  have pass: "checkDataCluster 10 example_workload ''c0'' example_c0 (Some METACLUSTER_DATA) ?content = Inr ()"
    by (rule checkDataCluster_examples)
  have before: "createTime (createdTenants_at example_workload 1) = BEFORE_BACKUP"
    by (simp add: example_workload_def createdTenants_at_def TenantData_init_def)
  note T = checkDataCluster_classifies [OF fin res pass]
  from T [THEN conjunct1] one before have present: "map_of ?content 1 \<noteq> None"
    by blast
  from T [THEN conjunct2, THEN conjunct2, THEN conjunct1]
  have sub: "{t \<in> dom (map_of ?content). t \<notin> dc_tenants example_c0} \<subseteq> deletedTenants example_workload"
    .
  show ?thesis
    using fin res pass one before present sub by blast
qed

text \<open>
  C3, as amended. When the check of a restored data cluster passes, a tenant tracked for the
  cluster with creation time \<^verbatim>\<open>BEFORE_BACKUP\<close> is in the cluster's tenant map, with the
  tracked group unless the management cluster was recovered and the tenant was last
  regrouped \<^verbatim>\<open>DURING_BACKUP\<close> or \<^verbatim>\<open>AFTER_BACKUP\<close>, and with the tracked name unless the
  management cluster was recovered and the tenant was last renamed \<^verbatim>\<open>DURING_BACKUP\<close> or
  \<^verbatim>\<open>AFTER_BACKUP\<close>.
\<close>

theorem checkDataCluster_before_backup_attributes:
  assumes fin: "finite (dc_tenants clusterData)"
    and res: "restored clusterData"
    and pass: "checkDataCluster K self cn clusterData reg content = Inr ()"
    and t: "t \<in> dc_tenants clusterData"
    and before: "createTime (createdTenants_at self t) = BEFORE_BACKUP"
  shows "\<exists>entry. map_of content t = Some entry
      \<and> (\<not> (recoverManagementCluster self
              \<and> (configureTime (createdTenants_at self t) = DURING_BACKUP
                  \<or> configureTime (createdTenants_at self t) = AFTER_BACKUP))
           \<longrightarrow> tenantGroup entry = td_tenantGroup (createdTenants_at self t))
      \<and> (\<not> (recoverManagementCluster self
              \<and> (renameTime (createdTenants_at self t) = DURING_BACKUP
                  \<or> renameTime (createdTenants_at self t) = AFTER_BACKUP))
           \<longrightarrow> tenantName entry = td_name (createdTenants_at self t))"
proof -
  from checkDataCluster_restored_Inr [OF pass res] obtain m where
    tr: "checkDataCluster_tracked self cn (map_of content) (sorted_list_of_set (dc_tenants clusterData)) 0 = Inr m"
    by blast
  from checkDataCluster_tracked_Inr [OF tr] fin t
  have "trackedTenantChecked self cn (map_of content) t"
    by simp
  with before show ?thesis
    by (auto simp: trackedTenantChecked_def Let_def AccessTime_le_BEFORE_BACKUP)
qed

theorem checkDataCluster_before_backup_attributes_witness:
  "finite (dc_tenants example_c0)
   \<and> restored example_c0
   \<and> checkDataCluster 10 example_renamed ''c0'' example_c0 (Some METACLUSTER_DATA)
        example_tenantMap_backup = Inr ()
   \<and> 1 \<in> dc_tenants example_c0
   \<and> createTime (createdTenants_at example_renamed 1) = BEFORE_BACKUP
   \<and> renameTime (createdTenants_at example_renamed 1) = NONE
   \<and> configureTime (createdTenants_at example_renamed 1) = NONE
   \<and> map_of example_tenantMap_backup 1 = Some example_entry
   \<and> tenantGroup example_entry = td_tenantGroup (createdTenants_at example_renamed 1)
   \<and> tenantName example_entry = td_name (createdTenants_at example_renamed 1)"
proof -
  let ?content = "example_tenantMap_backup"
  have fin: "finite (dc_tenants example_c0)" and res: "restored example_c0"
    and one: "1 \<in> dc_tenants example_c0"
    by (simp_all add: example_c0_def)
  have pass: "checkDataCluster 10 example_renamed ''c0'' example_c0 (Some METACLUSTER_DATA) ?content = Inr ()"
    by (rule checkDataCluster_examples)
  have td: "createTime (createdTenants_at example_renamed 1) = BEFORE_BACKUP"
    "renameTime (createdTenants_at example_renamed 1) = NONE"
    "configureTime (createdTenants_at example_renamed 1) = NONE"
    by (simp_all add: example_renamed_def example_workload_def createdTenants_at_def TenantData_init_def)
  have e: "map_of ?content 1 = Some example_entry"
    by (simp add: example_tenantMap_backup_def)
  from checkDataCluster_before_backup_attributes [OF fin res pass one td(1)] e td
  have "tenantGroup example_entry = td_tenantGroup (createdTenants_at example_renamed 1)"
    "tenantName example_entry = td_name (createdTenants_at example_renamed 1)"
    by auto
  then show ?thesis
    using fin res pass one td e by blast
qed

text \<open>
  The claim as stated excepts a rename stamped \<^verbatim>\<open>BEFORE_BACKUP\<close> without recovery of the
  management cluster. The check does the opposite: with the management cluster recovered
  and tenant 2 renamed \<^verbatim>\<open>DURING_BACKUP\<close> it passes although the name in the tenant map is
  not the tracked one, and with the rename stamped \<^verbatim>\<open>BEFORE_BACKUP\<close> and no recovery of the
  management cluster the same mismatch fails an assertion.
\<close>

theorem before_backup_rename_exception_counterexample:
  "checkDataCluster 10 example_renamed ''c0'' example_c0 (Some METACLUSTER_DATA)
        example_tenantMap_backup = Inr ()
   \<and> restored example_c0
   \<and> 2 \<in> dc_tenants example_c0
   \<and> createTime (createdTenants_at example_renamed 2) = BEFORE_BACKUP
   \<and> renameTime (createdTenants_at example_renamed 2) = DURING_BACKUP
   \<and> recoverManagementCluster example_renamed
   \<and> map_of example_tenantMap_backup 2 = Some example_entry2
   \<and> tenantName example_entry2 \<noteq> td_name (createdTenants_at example_renamed 2)
   \<and> checkDataCluster 10 example_renamed_before ''c0'' example_c0 (Some METACLUSTER_DATA)
        example_tenantMap_backup = Inl internal_error
   \<and> createTime (createdTenants_at example_renamed_before 2) = BEFORE_BACKUP
   \<and> renameTime (createdTenants_at example_renamed_before 2) = BEFORE_BACKUP
   \<and> \<not> recoverManagementCluster example_renamed_before"
proof -
  have "restored example_c0" "2 \<in> dc_tenants example_c0"
    by (simp_all add: example_c0_def)
  moreover have "createTime (createdTenants_at example_renamed 2) = BEFORE_BACKUP"
    "renameTime (createdTenants_at example_renamed 2) = DURING_BACKUP"
    "recoverManagementCluster example_renamed"
    "tenantName example_entry2 \<noteq> td_name (createdTenants_at example_renamed 2)"
    by (simp_all add: example_renamed_def example_workload_def createdTenants_at_def
        TenantData_init_def example_entry2_def)
  moreover have "createTime (createdTenants_at example_renamed_before 2) = BEFORE_BACKUP"
    "renameTime (createdTenants_at example_renamed_before 2) = BEFORE_BACKUP"
    "\<not> recoverManagementCluster example_renamed_before"
    by (simp_all add: example_renamed_before_def example_workload_def createdTenants_at_def
        TenantData_init_def)
  moreover have "map_of example_tenantMap_backup 2 = Some example_entry2"
    by (simp add: example_tenantMap_backup_def)
  ultimately show ?thesis
    using checkDataCluster_examples(4) checkDataCluster_examples(5) by blast
qed

lemma checkTenants_unexpected_Inr:
  "checkTenants_unexpected self keys = Inr () \<Longrightarrow>
     \<forall>t \<in> set keys. createdTenants self t = None \<longrightarrow>
        t \<in> deletedTenants self \<and> recoverManagementCluster self \<and> recoverDataClusters self"
  by (induction keys) (auto split: if_splits)

lemma checkTenants_Inr:
  assumes "checkTenants K self content = Inr ()"
  shows "checkTenants_unexpected self (sort (remdups (map fst content))) = Inr ()"
proof -
  from assms have len: "length (take (K + 1) content) \<le> K"
    by (auto simp: checkTenants_def Let_def split: if_splits)
  then have t: "take (K + 1) content = content"
    by (simp add: min_def split: if_splits)
  from assms show ?thesis
    unfolding checkTenants_def Let_def t
    by (auto split: if_splits sum.splits)
qed

lemma checkTenants_example:
  "checkTenants 10 example_workload
     example_tenantMap_management = Inr ()"
  by (simp add: checkTenants_def example_workload_def example_tenantMap_management_def
      example_entry_def example_entry2_def example_entry3_def example_entry7_def
      createdTenants_at_def dataDbs_at_def TenantData_init_def)

text \<open>
  C6. When the check of a restored data cluster passes, and the tenants tracked for the
  cluster are tracked tenants, every id in the cluster's tenant map that is not tracked is a
  deleted tenant and the management cluster was recovered. When the check of the management
  cluster passes, every id in its tenant map that is not tracked is a deleted tenant and both
  the management cluster and data clusters were recovered.
\<close>

theorem untracked_tenants_are_tombstoned:
  "(restored clusterData \<and> dc_tenants clusterData \<subseteq> dom (createdTenants self)
      \<and> checkDataCluster K self cn clusterData reg content = Inr ()
     \<longrightarrow> (\<forall>t \<in> fst ` set content. createdTenants self t = None
            \<longrightarrow> t \<in> deletedTenants self \<and> recoverManagementCluster self))
   \<and> (checkTenants K' self' content' = Inr ()
     \<longrightarrow> (\<forall>t \<in> fst ` set content'. createdTenants self' t = None
            \<longrightarrow> t \<in> deletedTenants self' \<and> recoverManagementCluster self'
                \<and> recoverDataClusters self'))"
proof (intro conjI impI)
  assume a: "restored clusterData \<and> dc_tenants clusterData \<subseteq> dom (createdTenants self)
      \<and> checkDataCluster K self cn clusterData reg content = Inr ()"
  then have res: "restored clusterData" and inv: "dc_tenants clusterData \<subseteq> dom (createdTenants self)"
    and pass: "checkDataCluster K self cn clusterData reg content = Inr ()"
    by simp_all
  from checkDataCluster_restored_Inr [OF pass res] obtain m where
    un: "checkDataCluster_unexpected self clusterData (sort (remdups (map fst content))) 0 = Inr m"
    by blast
  from checkDataCluster_unexpected_Inr [OF un]
  have "\<forall>t \<in> fst ` set content. t \<notin> dc_tenants clusterData \<longrightarrow>
          recoverManagementCluster self \<and> t \<in> deletedTenants self"
    by simp
  with inv show "\<forall>t \<in> fst ` set content. createdTenants self t = None
            \<longrightarrow> t \<in> deletedTenants self \<and> recoverManagementCluster self"
    by (auto simp: subset_iff dom_def)
next
  assume "checkTenants K' self' content' = Inr ()"
  from checkTenants_unexpected_Inr [OF checkTenants_Inr [OF this]]
  show "\<forall>t \<in> fst ` set content'. createdTenants self' t = None
            \<longrightarrow> t \<in> deletedTenants self' \<and> recoverManagementCluster self'
                \<and> recoverDataClusters self'"
    by simp
qed

theorem untracked_tenants_are_tombstoned_witness:
  "restored example_c0
   \<and> dc_tenants example_c0 \<subseteq> dom (createdTenants example_workload)
   \<and> checkDataCluster 10 example_workload ''c0'' example_c0 (Some METACLUSTER_DATA)
        example_tenantMap_undeleted = Inr ()
   \<and> checkTenants 10 example_workload
        example_tenantMap_management = Inr ()
   \<and> 7 \<in> fst ` set example_tenantMap_undeleted
   \<and> createdTenants example_workload 7 = None
   \<and> 7 \<in> deletedTenants example_workload
   \<and> recoverManagementCluster example_workload
   \<and> recoverDataClusters example_workload"
proof -
  let ?content = "example_tenantMap_undeleted"
  let ?mcontent = "example_tenantMap_management"
  have h: "restored example_c0 \<and> dc_tenants example_c0 \<subseteq> dom (createdTenants example_workload)
      \<and> checkDataCluster 10 example_workload ''c0'' example_c0 (Some METACLUSTER_DATA) ?content = Inr ()"
    by (simp add: checkDataCluster_examples) (simp add: example_c0_def example_workload_def)
  have m: "checkTenants 10 example_workload ?mcontent = Inr ()"
    by (rule checkTenants_example)
  have seven: "7 \<in> fst ` set ?content" "7 \<in> fst ` set ?mcontent"
    by (simp_all add: example_tenantMap_undeleted_def example_tenantMap_management_def)
  have un: "createdTenants example_workload 7 = None"
    by (simp add: example_workload_def)
  note T = untracked_tenants_are_tombstoned [of example_c0 example_workload 10 "''c0''"
      "Some METACLUSTER_DATA" ?content 10 example_workload ?mcontent]
  from T h seven(1) un have d: "7 \<in> deletedTenants example_workload \<and> recoverManagementCluster example_workload"
    by blast
  from T m seven(2) un have md: "recoverDataClusters example_workload"
    by blast
  show ?thesis
    using h m seven(1) un d md by blast
qed


subsection \<open>Properties of the growth of the capacity\<close>

text \<open>
  The double arithmetic gives the exact ceiling of six fifths of every capacity that an
  \<^verbatim>\<open>int\<close> can hold: the error of the literal \<^verbatim>\<open>1.2\<close> and the rounding of the product stay
  below the distance of the exact product to the next integer, or vanish in the rounding
  when the exact product is an integer.
\<close>

lemma ceil_times_1_2_examples:
  "ceil_times_1_2 0 = 0" "ceil_times_1_2 5 = 6" "ceil_times_1_2 39 = 47"
  by (simp_all add: ceil_times_1_2_def round_to_double_def mantissa_1_2_def bitlen.simps Let_def)

lemma bitlen_bounds: "0 < p \<Longrightarrow> 2 ^ (bitlen p - 1) \<le> p \<and> p < 2 ^ bitlen p"
proof (induction p rule: bitlen.induct)
  case (1 n)
  show ?case
  proof (cases "n div 2 = 0")
    case True
    with "1.prems" have "n = 1" by (simp add: div_eq_0_iff)
    then show ?thesis by (simp add: bitlen.simps)
  next
    case False
    then have pos: "0 < n div 2" by simp
    from "1.IH" "1.prems" pos have ih: "2 ^ (bitlen (n div 2) - 1) \<le> n div 2" "n div 2 < 2 ^ bitlen (n div 2)"
      by simp_all
    have b: "bitlen n = Suc (bitlen (n div 2))"
      using "1.prems" by (simp add: bitlen.simps [of n])
    have bp: "0 < bitlen (n div 2)"
      using pos by (simp add: bitlen.simps [of "n div 2"])
    then obtain k where k: "bitlen (n div 2) = Suc k" by (cases "bitlen (n div 2)") auto
    from ih k have "2 * 2 ^ k \<le> n" "n < 2 * 2 ^ Suc k"
      by simp_all
    then show ?thesis by (simp add: b k)
  qed
qed


lemma bitlen_le:
  assumes "0 < p" and "p < 2 ^ k"
  shows "bitlen p \<le> k"
proof (rule ccontr)
  assume "\<not> bitlen p \<le> k"
  then have "k \<le> bitlen p - 1" by simp
  then have "(2::nat) ^ k \<le> 2 ^ (bitlen p - 1)"
    by (rule power_increasing) simp
  also have "\<dots> \<le> p"
    using bitlen_bounds [OF assms(1)] by simp
  finally show False
    using assms(2) by simp
qed

lemma round_to_double_bounds:
  fixes p :: nat
  defines "E \<equiv> (2::nat) ^ (bitlen p - 53)"
  shows "E dvd round_to_double p \<and> p < round_to_double p + E \<and> round_to_double p < p + E"
proof -
  define q where "q = p div E"
  define r where "r = p mod E"
  define X where "X = q * E"
  have E: "0 < E" by (simp add: E_def)
  have p: "p = X + r" by (simp add: X_def q_def r_def)
  have r: "r < E" using E by (simp add: r_def)
  have X: "E dvd X" by (simp add: X_def)
  show ?thesis
  proof (cases "2 * r > E \<or> (2 * r = E \<and> odd q)")
    case True
    then have "round_to_double p = (q + 1) * E"
      by (simp add: round_to_double_def Let_def E_def q_def r_def)
    then have rd: "round_to_double p = X + E"
      by (simp add: X_def)
    from True E have "1 \<le> r" by arith
    with p r have "X + E < p + E" "p < X + E + E"
      by arith+
    with X show ?thesis by (simp add: rd)
  next
    case False
    then have "round_to_double p = q * E"
      by (simp add: round_to_double_def Let_def E_def q_def r_def)
    then have rd: "round_to_double p = X"
      by (simp add: X_def)
    from p r E have "X < p + E" "p < X + E"
      by arith+
    with X show ?thesis by (simp add: rd)
  qed
qed

lemma dvd_less_add_imp_le:
  fixes a b E :: int
  assumes "E dvd a" "E dvd b" "a < b + E" "0 < E"
  shows "a \<le> b"
proof -
  from assms(1,2) have "E dvd a - b" by (rule dvd_diff)
  then obtain k where k: "a - b = E * k" by (auto simp: dvd_def)
  with assms(3) have "E * k < E * 1" by simp
  with assms(4) have "k < 1" by (simp only: mult_less_cancel_left_pos)
  then have "k \<le> 0" by simp
  with assms(4) have "E * k \<le> 0" by (simp add: mult_le_0_iff)
  with k show ?thesis by simp
qed

lemma ceil_core:
  fixes p N T L E :: int
  assumes N: "1 \<le> N" "N < 2147483648" and p: "5 * p + N = 27021597764222976 * N"
    and T: "5 * T \<le> 6 * N + 4" "6 * N + 4 < 5 * T + 5"
    and E: "1 \<le> E" "E \<le> 2147483648" and L: "p < L + E" "L < p + E"
    and exact: "5 * T = 6 * N \<longrightarrow> L \<le> 4503599627370496 * T"
  shows "4503599627370496 * T - 4503599627370496 < L \<and> L \<le> 4503599627370496 * T"
proof
  show "4503599627370496 * T - 4503599627370496 < L"
    using N p T E L by linarith
next
  show "L \<le> 4503599627370496 * T"
  proof (cases "5 * T = 6 * N")
    case True
    with exact show ?thesis by simp
  next
    case False
    with T have "6 * N + 1 \<le> 5 * T" by simp
    then show ?thesis
      using N p E L by linarith
  qed
qed

lemma ceil_div_from_bounds:
  fixes L T :: int
  assumes "4503599627370496 * T - 4503599627370496 < L" "L \<le> 4503599627370496 * T"
  shows "(L + 4503599627370496 - 1) div 4503599627370496 = T"
proof -
  define r where "r = L + 4503599627370496 - 1 - 4503599627370496 * T"
  have r: "0 \<le> r" "r < 4503599627370496"
    using assms by (simp_all add: r_def)
  have "L + 4503599627370496 - 1 = T * 4503599627370496 + r"
    by (simp add: r_def)
  then have "(L + 4503599627370496 - 1) div 4503599627370496 = (T * 4503599627370496 + r) div 4503599627370496"
    by simp
  also have "\<dots> = T + r div 4503599627370496"
    by simp
  also have "r div 4503599627370496 = 0"
    using r by simp
  finally show ?thesis by simp
qed

lemma ceil_times_1_2_exact:
  assumes n0: "0 \<le> n" and n31: "n < 2 ^ 31"
  shows "ceil_times_1_2 n = (6 * n + 4) div 5"
proof (cases "n = 0")
  case True
  then show ?thesis
    by (simp add: ceil_times_1_2_def round_to_double_def mantissa_1_2_def bitlen.simps Let_def)
next
  case False
  with n0 have n1: "1 \<le> n" by simp
  define N where "N = nat n"
  define p where "p = N * mantissa_1_2"
  define E where "E = (2::nat) ^ (bitlen p - 53)"
  define L where "L = int (round_to_double p)"
  define T where "T = (6 * n + 4) div 5"
  have N: "int N = n" "0 < N" "N < 2147483648"
    using n1 n31 by (simp_all add: N_def)
  have ppos: "0 < p"
    using N by (simp add: p_def mantissa_1_2_def)
  have "p < 2147483648 * 9007199254740992"
    using N by (simp add: p_def mantissa_1_2_def) 
  then have "p < 2 ^ 84" by simp
  from bitlen_le [OF ppos this] have "bitlen p - 53 \<le> 31" by simp
  then have "E \<le> 2 ^ 31"
    unfolding E_def by (rule power_increasing) simp
  then have "int E \<le> int (2 ^ 31)"
    by (simp only: of_nat_le_iff)
  moreover have "1 \<le> int E"
    by (simp add: E_def)
  ultimately have E: "1 \<le> int E" "int E \<le> 2147483648"
    by simp_all
  have Edvd: "int E dvd 4503599627370496"
  proof -
    have "(2::nat) ^ (bitlen p - 53) dvd 2 ^ 52"
      using \<open>bitlen p - 53 \<le> 31\<close> by (intro le_imp_power_dvd) simp
    then have "int E dvd int (2 ^ 52)"
      unfolding E_def by (simp only: int_dvd_int_iff)
    then show ?thesis by simp
  qed
  from round_to_double_bounds [of p]
  have rb: "E dvd round_to_double p" "p < round_to_double p + E" "round_to_double p < p + E"
    by (simp_all add: E_def)
  have Ldvd: "int E dvd L"
    using rb(1) by (simp add: L_def)
  have Lb: "int p < L + int E" "L < int p + int E"
    using rb(2,3) by (simp_all add: L_def)
  have pn: "5 * int p + n = 27021597764222976 * n"
    using N(1) by (simp add: p_def mantissa_1_2_def)
  have Tb: "5 * T \<le> 6 * n + 4" "6 * n + 4 < 5 * T + 5"
    by (simp_all add: T_def)
  have exact: "5 * T = 6 * n \<longrightarrow> L \<le> 4503599627370496 * T"
  proof
    assume e: "5 * T = 6 * n"
    have "int p < 4503599627370496 * T"
      using pn e n1 by linarith
    with Lb(2) have "L < 4503599627370496 * T + int E" by simp
    moreover have "int E dvd 4503599627370496 * T"
      using Edvd by simp
    ultimately show "L \<le> 4503599627370496 * T"
      using Ldvd E(1) by (intro dvd_less_add_imp_le [of "int E"]) simp_all
  qed
  from ceil_core [OF n1 _ pn Tb E Lb exact] n31
  have "4503599627370496 * T - 4503599627370496 < L \<and> L \<le> 4503599627370496 * T"
    by simp
  then have "(L + 4503599627370496 - 1) div 4503599627370496 = T"
    using ceil_div_from_bounds by blast
  moreover have "ceil_times_1_2 n = (L + 4503599627370496 - 1) div 4503599627370496"
    using n0 by (simp add: ceil_times_1_2_def L_def p_def N_def)
  ultimately show ?thesis
    by (simp add: T_def)
qed

lemma increaseMetaclusterCapacity_updates_Inr:
  "increaseMetaclusterCapacity_updates api cap w idx acc = Inr writes \<Longrightarrow>
     \<exists>new. writes = acc @ new \<and> map fst new = idx
       \<and> (\<forall>cw \<in> set new. capacity_numTenantGroups (snd cw) = cap
             \<and> (\<exists>m. api_getClusterTransaction api (fst cw) w = Inr m
                    \<and> snd cw = m\<lparr>capacity_numTenantGroups := cap\<rparr>))"
proof (induction idx arbitrary: acc)
  case Nil
  then show ?case by simp
next
  case (Cons c idx)
  from Cons.prems obtain m where
    m: "api_getClusterTransaction api c w = Inr m"
    and rest: "increaseMetaclusterCapacity_updates api cap w idx
                 (acc @ [(c, m\<lparr>capacity_numTenantGroups := cap\<rparr>)]) = Inr writes"
    by (auto simp: Let_def split: sum.splits)
  from Cons.IH [OF rest] obtain new where
    new: "writes = (acc @ [(c, m\<lparr>capacity_numTenantGroups := cap\<rparr>)]) @ new" "map fst new = idx"
      "\<forall>cw \<in> set new. capacity_numTenantGroups (snd cw) = cap
             \<and> (\<exists>m. api_getClusterTransaction api (fst cw) w = Inr m
                    \<and> snd cw = m\<lparr>capacity_numTenantGroups := cap\<rparr>)"
    by blast
  show ?case
    by (rule exI [of _ "(c, m\<lparr>capacity_numTenantGroups := cap\<rparr>) # new"]) (use new m in auto)
qed

lemma increaseMetaclusterCapacity_loop_Inr:
  "increaseMetaclusterCapacity_loop api fuel idx cap w = Some (Inr w') \<Longrightarrow>
     \<exists>w0 writes. api_commit api writes w0 = (None, w')
       \<and> increaseMetaclusterCapacity_updates api cap w0 idx [] = Inr writes"
proof (induction fuel arbitrary: w)
  case 0
  then show ?case by simp
next
  case (Suc fuel)
  show ?case
  proof (cases "increaseMetaclusterCapacity_updates api cap w idx []")
    case (Inl e)
    with Suc.prems obtain w'' where
      "increaseMetaclusterCapacity_loop api fuel idx cap w'' = Some (Inr w')"
      by (auto split: prod.splits option.splits)
    from Suc.IH [OF this] show ?thesis .
  next
    case (Inr writes)
    show ?thesis
    proof (cases "api_commit api writes w")
      case (Pair err w1)
      show ?thesis
      proof (cases err)
        case None
        with Suc.prems Inr Pair have "w' = w1" by simp
        with Inr Pair None show ?thesis by blast
      next
        case (Some e)
        with Suc.prems Inr Pair obtain w'' where
          "increaseMetaclusterCapacity_loop api fuel idx cap w'' = Some (Inr w')"
          by (auto split: prod.splits option.splits)
        from Suc.IH [OF this] show ?thesis .
      qed
    qed
  qed
qed

lemma increaseMetaclusterCapacity_loop_Inl:
  "increaseMetaclusterCapacity_loop api fuel idx cap w = Some (Inl e) \<Longrightarrow>
     \<exists>e0 w0 w1. api_onError api e0 w0 = (Some e, w1)"
proof (induction fuel arbitrary: w)
  case 0
  then show ?case by simp
next
  case (Suc fuel)
  obtain err w1 where t: "(case increaseMetaclusterCapacity_updates api cap w idx [] of
              Inl e \<Rightarrow> (Some e, w)
            | Inr writes \<Rightarrow> api_commit api writes w) = (err, w1)"
    by (metis prod.exhaust)
  show ?case
  proof (cases err)
    case None
    with Suc.prems t show ?thesis by simp
  next
    case (Some e1)
    obtain err2 w2 where o: "api_onError api e1 w1 = (err2, w2)" by (metis prod.exhaust)
    show ?thesis
    proof (cases err2)
      case None
      with Suc.prems t Some o have "increaseMetaclusterCapacity_loop api fuel idx cap w2 = Some (Inl e)"
        by simp
      from Suc.IH [OF this] show ?thesis .
    next
      case e2: (Some e2)
      with Suc.prems t Some o have "e = e2" by simp
      with o e2 show ?thesis by blast
    qed
  qed
qed

lemma increaseMetaclusterCapacity_Inr:
  assumes "increaseMetaclusterCapacity api fuel self w = Some (Inr (self', w'))"
  shows "tenantGroupCapacity self' = ceil_times_1_2 (tenantGroupCapacity self)
       \<and> self' = self\<lparr>tenantGroupCapacity := tenantGroupCapacity self'\<rparr>
       \<and> (\<exists>w0 writes. api_commit api writes w0 = (None, w')
             \<and> map fst writes = dataDbIndex self
             \<and> (\<forall>cw \<in> set writes. capacity_numTenantGroups (snd cw) = tenantGroupCapacity self'
                   \<and> (\<exists>m. api_getClusterTransaction api (fst cw) w0 = Inr m
                          \<and> snd cw = m\<lparr>capacity_numTenantGroups := tenantGroupCapacity self'\<rparr>)))"
proof -
  let ?v = "ceil_times_1_2 (tenantGroupCapacity self)"
  from assms have s: "self' = self\<lparr>tenantGroupCapacity := ?v\<rparr>"
    and l: "increaseMetaclusterCapacity_loop api fuel (dataDbIndex self) ?v w = Some (Inr w')"
    by (auto simp: increaseMetaclusterCapacity_def Let_def split: if_splits option.splits sum.splits)
  from increaseMetaclusterCapacity_loop_Inr [OF l] obtain w0 writes where
    c: "api_commit api writes w0 = (None, w')"
    and u: "increaseMetaclusterCapacity_updates api ?v w0 (dataDbIndex self) [] = Inr writes"
    by blast
  from increaseMetaclusterCapacity_updates_Inr [OF u]
  have "map fst writes = dataDbIndex self"
    and "\<forall>cw \<in> set writes. capacity_numTenantGroups (snd cw) = ?v
             \<and> (\<exists>m. api_getClusterTransaction api (fst cw) w0 = Inr m
                    \<and> snd cw = m\<lparr>capacity_numTenantGroups := ?v\<rparr>)"
    by auto
  with s c show ?thesis by auto
qed

lemma increaseMetaclusterCapacity_Inl:
  assumes "increaseMetaclusterCapacity api fuel self w = Some (Inl e)"
  shows "e = undefined_behavior \<or> (\<exists>e0 w0 w1. api_onError api e0 w0 = (Some e, w1))"
  using assms increaseMetaclusterCapacity_loop_Inl [of api fuel _ _ w e]
  by (auto simp: increaseMetaclusterCapacity_def Let_def split: if_splits option.splits sum.splits)

lemma createTenant_loop_not_capacity:
  assumes "\<forall>e w e' w'. api_onError api e w = (Some e', w') \<longrightarrow> e' \<noteq> metacluster_no_capacity"
  shows "createTenant_loop api fuel name ct gs self w \<noteq> Some (Inl metacluster_no_capacity)"
proof (induction gs arbitrary: self w)
  case Nil
  then show ?case by simp
next
  case (Cons g gs)
  have inc: "\<And>s v. increaseMetaclusterCapacity api fuel s v \<noteq> Some (Inl metacluster_no_capacity)"
    using assms increaseMetaclusterCapacity_Inl by fastforce
  show ?case
    using Cons.IH inc
    by (auto split: prod.splits sum.splits option.splits if_splits)
qed

lemma configureTenant_loop_not_capacity:
  assumes "\<forall>e w e' w'. api_onError api e w = (Some e', w') \<longrightarrow> e' \<noteq> cluster_no_capacity"
  shows "configureTenant_loop api fuel passes name tid g at self w \<noteq> Some (Inl cluster_no_capacity)"
proof (induction passes arbitrary: self w)
  case 0
  then show ?case by simp
next
  case (Suc passes)
  have inc: "\<And>s v. increaseMetaclusterCapacity api fuel s v \<noteq> Some (Inl cluster_no_capacity)"
    using assms increaseMetaclusterCapacity_Inl by fastforce
  have rec: "\<And>s. recordConfiguredTenant tid g at s \<noteq> Inl cluster_no_capacity"
    by (auto simp: recordConfiguredTenant_def Let_def split: option.splits sum.splits if_splits)
  show ?case
    using Suc.IH inc rec
    by (auto split: prod.splits sum.splits option.splits if_splits)
qed

text \<open>
  C7. A growth of the capacity that ends normally has set \<^verbatim>\<open>tenantGroupCapacity\<close> to the
  ceiling of 1.2 times its value (more than before unless it was 0) and has committed a
  transaction that writes the new capacity to every cluster of \<^verbatim>\<open>dataDbIndex\<close>. A creation
  that fails with \<^verbatim>\<open>metacluster_no_capacity\<close>, and a configuration that fails with
  \<^verbatim>\<open>cluster_no_capacity\<close>, grow the capacity and go through the loop again; any other error
  of the operation ends it with that error. As long as the transaction of the growth does
  not throw it, neither operation ends with its capacity error.
\<close>

theorem capacity_exhausted_grows_and_retries:
  "(0 \<le> tenantGroupCapacity self \<and> tenantGroupCapacity self < 2 ^ 31
      \<and> increaseMetaclusterCapacity api fuel self w = Some (Inr (self', w')) \<longrightarrow>
        tenantGroupCapacity self' = (6 * tenantGroupCapacity self + 4) div 5
      \<and> 6 * tenantGroupCapacity self \<le> 5 * tenantGroupCapacity self'
      \<and> 5 * tenantGroupCapacity self' < 6 * tenantGroupCapacity self + 5
      \<and> (1 \<le> tenantGroupCapacity self \<longrightarrow> tenantGroupCapacity self < tenantGroupCapacity self')
      \<and> self' = self\<lparr>tenantGroupCapacity := tenantGroupCapacity self'\<rparr>
      \<and> (\<exists>w0 writes. api_commit api writes w0 = (None, w') \<and> map fst writes = dataDbIndex self
            \<and> (\<forall>cw \<in> set writes. capacity_numTenantGroups (snd cw) = tenantGroupCapacity self')))
   \<and> (api_createTenant api name g v = (Some metacluster_no_capacity, v1) \<longrightarrow>
        createTenant_loop api fuel name ct (g # gs) s v =
          (case increaseMetaclusterCapacity api fuel s v1 of
             None \<Rightarrow> None
           | Some (Inl e') \<Rightarrow> Some (Inl e')
           | Some (Inr (s', v2)) \<Rightarrow> createTenant_loop api fuel name ct gs s' v2))
   \<and> (api_createTenant api name2 g2 u = (Some e, u1) \<and> e \<noteq> metacluster_no_capacity \<longrightarrow>
        createTenant_loop api fuel name2 ct (g2 # gs) s u = Some (Inl e))
   \<and> (api_configureTenant api name3 g3 x = (Some cluster_no_capacity, x1) \<longrightarrow>
        configureTenant_loop api fuel (Suc passes) name3 tid g3 at s x =
          (case increaseMetaclusterCapacity api fuel s x1 of
             None \<Rightarrow> None
           | Some (Inl e') \<Rightarrow> Some (Inl e')
           | Some (Inr (s', x2)) \<Rightarrow> configureTenant_loop api fuel passes name3 tid g3 at s' x2))
   \<and> (api_configureTenant api name4 g4 y = (Some e2, y1) \<and> e2 \<noteq> cluster_no_capacity \<longrightarrow>
        configureTenant_loop api fuel (Suc passes) name4 tid g4 at s y = Some (Inl e2))
   \<and> ((\<forall>e0 w0 e1 w1. api_onError api e0 w0 = (Some e1, w1) \<longrightarrow> e1 \<noteq> metacluster_no_capacity) \<longrightarrow>
        createTenant api fuel draws ct gs s v \<noteq> Some (Inl metacluster_no_capacity))
   \<and> ((\<forall>e0 w0 e1 w1. api_onError api e0 w0 = (Some e1, w1) \<longrightarrow> e1 \<noteq> cluster_no_capacity) \<longrightarrow>
        configureTenant api fuel passes draws at g s v \<noteq> Some (Inl cluster_no_capacity))"
proof (intro conjI)
  show "0 \<le> tenantGroupCapacity self \<and> tenantGroupCapacity self < 2 ^ 31
      \<and> increaseMetaclusterCapacity api fuel self w = Some (Inr (self', w')) \<longrightarrow>
        tenantGroupCapacity self' = (6 * tenantGroupCapacity self + 4) div 5
      \<and> 6 * tenantGroupCapacity self \<le> 5 * tenantGroupCapacity self'
      \<and> 5 * tenantGroupCapacity self' < 6 * tenantGroupCapacity self + 5
      \<and> (1 \<le> tenantGroupCapacity self \<longrightarrow> tenantGroupCapacity self < tenantGroupCapacity self')
      \<and> self' = self\<lparr>tenantGroupCapacity := tenantGroupCapacity self'\<rparr>
      \<and> (\<exists>w0 writes. api_commit api writes w0 = (None, w') \<and> map fst writes = dataDbIndex self
            \<and> (\<forall>cw \<in> set writes. capacity_numTenantGroups (snd cw) = tenantGroupCapacity self'))"
  proof
    assume a: "0 \<le> tenantGroupCapacity self \<and> tenantGroupCapacity self < 2 ^ 31
      \<and> increaseMetaclusterCapacity api fuel self w = Some (Inr (self', w'))"
    then have n: "0 \<le> tenantGroupCapacity self" "tenantGroupCapacity self < 2 ^ 31"
      and run: "increaseMetaclusterCapacity api fuel self w = Some (Inr (self', w'))"
      by simp_all
    note r = increaseMetaclusterCapacity_Inr [OF run]
    from r ceil_times_1_2_exact [OF n]
    have v: "tenantGroupCapacity self' = (6 * tenantGroupCapacity self + 4) div 5"
      by simp
    then have b: "6 * tenantGroupCapacity self \<le> 5 * tenantGroupCapacity self'"
      "5 * tenantGroupCapacity self' < 6 * tenantGroupCapacity self + 5"
      by simp_all
    from b have g: "1 \<le> tenantGroupCapacity self \<longrightarrow> tenantGroupCapacity self < tenantGroupCapacity self'"
      by simp
    from r have st: "self' = self\<lparr>tenantGroupCapacity := tenantGroupCapacity self'\<rparr>"
      by blast
    from r have wr: "\<exists>w0 writes. api_commit api writes w0 = (None, w') \<and> map fst writes = dataDbIndex self
            \<and> (\<forall>cw \<in> set writes. capacity_numTenantGroups (snd cw) = tenantGroupCapacity self')"
      by blast
    show "tenantGroupCapacity self' = (6 * tenantGroupCapacity self + 4) div 5
      \<and> 6 * tenantGroupCapacity self \<le> 5 * tenantGroupCapacity self'
      \<and> 5 * tenantGroupCapacity self' < 6 * tenantGroupCapacity self + 5
      \<and> (1 \<le> tenantGroupCapacity self \<longrightarrow> tenantGroupCapacity self < tenantGroupCapacity self')
      \<and> self' = self\<lparr>tenantGroupCapacity := tenantGroupCapacity self'\<rparr>
      \<and> (\<exists>w0 writes. api_commit api writes w0 = (None, w') \<and> map fst writes = dataDbIndex self
            \<and> (\<forall>cw \<in> set writes. capacity_numTenantGroups (snd cw) = tenantGroupCapacity self'))"
      using v b g st wr by blast
  qed
next
  show "api_createTenant api name g v = (Some metacluster_no_capacity, v1) \<longrightarrow>
        createTenant_loop api fuel name ct (g # gs) s v =
          (case increaseMetaclusterCapacity api fuel s v1 of
             None \<Rightarrow> None
           | Some (Inl e') \<Rightarrow> Some (Inl e')
           | Some (Inr (s', v2)) \<Rightarrow> createTenant_loop api fuel name ct gs s' v2)"
    by simp
next
  show "api_createTenant api name2 g2 u = (Some e, u1) \<and> e \<noteq> metacluster_no_capacity \<longrightarrow>
        createTenant_loop api fuel name2 ct (g2 # gs) s u = Some (Inl e)"
    by simp
next
  show "api_configureTenant api name3 g3 x = (Some cluster_no_capacity, x1) \<longrightarrow>
        configureTenant_loop api fuel (Suc passes) name3 tid g3 at s x =
          (case increaseMetaclusterCapacity api fuel s x1 of
             None \<Rightarrow> None
           | Some (Inl e') \<Rightarrow> Some (Inl e')
           | Some (Inr (s', x2)) \<Rightarrow> configureTenant_loop api fuel passes name3 tid g3 at s' x2)"
    by simp
next
  show "api_configureTenant api name4 g4 y = (Some e2, y1) \<and> e2 \<noteq> cluster_no_capacity \<longrightarrow>
        configureTenant_loop api fuel (Suc passes) name4 tid g4 at s y = Some (Inl e2)"
    by simp
next
  show "(\<forall>e0 w0 e1 w1. api_onError api e0 w0 = (Some e1, w1) \<longrightarrow> e1 \<noteq> metacluster_no_capacity) \<longrightarrow>
        createTenant api fuel draws ct gs s v \<noteq> Some (Inl metacluster_no_capacity)"
  proof
    assume "\<forall>e0 w0 e1 w1. api_onError api e0 w0 = (Some e1, w1) \<longrightarrow> e1 \<noteq> metacluster_no_capacity"
    from createTenant_loop_not_capacity [OF this]
    show "createTenant api fuel draws ct gs s v \<noteq> Some (Inl metacluster_no_capacity)"
      by (simp add: createTenant_def Let_def)
  qed
next
  show "(\<forall>e0 w0 e1 w1. api_onError api e0 w0 = (Some e1, w1) \<longrightarrow> e1 \<noteq> cluster_no_capacity) \<longrightarrow>
        configureTenant api fuel passes draws at g s v \<noteq> Some (Inl cluster_no_capacity)"
  proof
    assume "\<forall>e0 w0 e1 w1. api_onError api e0 w0 = (Some e1, w1) \<longrightarrow> e1 \<noteq> cluster_no_capacity"
    from configureTenant_loop_not_capacity [OF this]
    show "configureTenant api fuel passes draws at g s v \<noteq> Some (Inl cluster_no_capacity)"
      by (simp add: configureTenant_def Let_def split: option.splits)
  qed
qed

lemma example_capacity_values:
  "ceil_times_1_2 10 = 12" "fits_int 12"
  by (simp_all add: ceil_times_1_2_def round_to_double_def mantissa_1_2_def bitlen.simps Let_def
      fits_int_def)

lemma example_increase:
  "increaseMetaclusterCapacity example_tenant_api (Suc 0) example_workload 10
     = Some (Inr (example_workload\<lparr>tenantGroupCapacity := 12\<rparr>, 12))"
  by (simp add: increaseMetaclusterCapacity_def example_capacity_values Let_def
      example_workload_def example_tenant_api_def)

lemma example_create:
  "createTenant example_tenant_api (Suc 0) [''t1'', ''t9''] AFTER_BACKUP [None, None] example_workload 10
     = Some (Inr (recordCreatedTenant ''t9'' AFTER_BACKUP (example_created_entry ''t9'') ''c0''
                    (example_workload\<lparr>tenantGroupCapacity := 12\<rparr>), 12))"
proof -
  have pick: "tenantNameIndex example_workload ''t1'' = Some 1"
    "tenantNameIndex example_workload ''t9'' = None"
    by (simp_all add: example_workload_def)
  have c: "api_createTenant example_tenant_api ''t9'' None 10 = (Some metacluster_no_capacity, 10)"
    "api_createTenant example_tenant_api ''t9'' None 12 = (None, 12)"
    "api_getTenant example_tenant_api ''t9'' 12 = Inr (example_created_entry ''t9'')"
    "assignedCluster (example_created_entry ''t9'') = Some ''c0''"
    by (simp_all add: example_tenant_api_def example_created_entry_def)
  show ?thesis
    by (simp add: createTenant_def Let_def pick c example_increase)
qed


lemma example_tenant_api_simps:
  "api_createTenant example_tenant_api ''t9'' None 10 = (Some metacluster_no_capacity, 10)"
  "api_createTenant example_tenant_api ''t9'' None 12 = (None, 12)"
  "api_createTenant example_tenant_api ''bad'' None 10 = (Some (other_error 1), 10)"
  "api_configureTenant example_tenant_api ''t1'' None 10 = (Some cluster_no_capacity, 10)"
  "api_configureTenant example_tenant_api ''t1'' None 12 = (None, 12)"
  "api_configureTenant example_tenant_api ''bad'' None 10 = (Some (other_error 1), 10)"
  "api_getTenant example_tenant_api ''t9'' 12 = Inr (example_created_entry ''t9'')"
  "assignedCluster (example_created_entry ''t9'') = Some ''c0''"
  "api_onError example_tenant_api e0 w0 = (Some internal_error, w0)"
  by (simp_all add: example_tenant_api_def example_created_entry_def)

theorem capacity_exhausted_grows_and_retries_witness:
  "increaseMetaclusterCapacity example_tenant_api (Suc 0) example_workload 10
     = Some (Inr (example_workload\<lparr>tenantGroupCapacity := 12\<rparr>, 12))
   \<and> tenantGroupCapacity example_workload = 10
   \<and> tenantGroupCapacity (example_workload\<lparr>tenantGroupCapacity := 12\<rparr>)
        = (6 * tenantGroupCapacity example_workload + 4) div 5
   \<and> api_createTenant example_tenant_api ''t9'' None 10 = (Some metacluster_no_capacity, 10)
   \<and> createTenant_loop example_tenant_api (Suc 0) ''t9'' AFTER_BACKUP [None, None] example_workload 10
        = Some (Inr (recordCreatedTenant ''t9'' AFTER_BACKUP (example_created_entry ''t9'') ''c0''
                       (example_workload\<lparr>tenantGroupCapacity := 12\<rparr>), 12))
   \<and> api_createTenant example_tenant_api ''bad'' None 10 = (Some (other_error 1), 10)
   \<and> createTenant_loop example_tenant_api (Suc 0) ''bad'' AFTER_BACKUP [None, None] example_workload 10
        = Some (Inl (other_error 1))
   \<and> api_configureTenant example_tenant_api ''t1'' None 10 = (Some cluster_no_capacity, 10)
   \<and> configureTenant_loop example_tenant_api (Suc 0) (Suc (Suc 0)) ''t1'' 1 None AFTER_BACKUP
        example_workload 10
        = configureTenant_loop example_tenant_api (Suc 0) (Suc 0) ''t1'' 1 None AFTER_BACKUP
            (example_workload\<lparr>tenantGroupCapacity := 12\<rparr>) 12
   \<and> api_configureTenant example_tenant_api ''bad'' None 10 = (Some (other_error 1), 10)
   \<and> configureTenant_loop example_tenant_api (Suc 0) (Suc (Suc 0)) ''bad'' 1 None AFTER_BACKUP
        example_workload 10
        = Some (Inl (other_error 1))
   \<and> createTenant example_tenant_api (Suc 0) [''t1'', ''t9''] AFTER_BACKUP [None, None]
        example_workload 10 \<noteq> Some (Inl metacluster_no_capacity)
   \<and> configureTenant example_tenant_api (Suc 0) (Suc (Suc 0)) [''t1''] AFTER_BACKUP None
        example_workload 10 \<noteq> Some (Inl cluster_no_capacity)"
proof -
  note T = capacity_exhausted_grows_and_retries
    [where api = example_tenant_api and fuel = "Suc 0" and self = example_workload and w = 10
      and self' = "example_workload\<lparr>tenantGroupCapacity := 12\<rparr>" and w' = 12
      and name = "''t9''" and g = None and v = 10 and ?v1.0 = 10 and ct = AFTER_BACKUP
      and gs = "[None]" and s = example_workload
      and ?name2.0 = "''bad''" and ?g2.0 = None and u = 10 and ?u1.0 = 10 and e = "other_error 1"
      and ?name3.0 = "''t1''" and ?g3.0 = None and x = 10 and ?x1.0 = 10 and passes = "Suc 0"
      and tid = 1 and at = AFTER_BACKUP
      and ?name4.0 = "''bad''" and ?g4.0 = None and y = 10 and ?y1.0 = 10 and ?e2.0 = "other_error 1"]
  have cap: "tenantGroupCapacity example_workload = 10"
    by (simp add: example_workload_def)
  have h1: "0 \<le> tenantGroupCapacity example_workload \<and> tenantGroupCapacity example_workload < 2 ^ 31
      \<and> increaseMetaclusterCapacity example_tenant_api (Suc 0) example_workload 10
           = Some (Inr (example_workload\<lparr>tenantGroupCapacity := 12\<rparr>, 12))"
    by (simp add: cap example_increase)
  have h6: "\<forall>e0 w0 e1 w1. api_onError example_tenant_api e0 w0 = (Some e1, w1) \<longrightarrow> e1 \<noteq> metacluster_no_capacity"
    and h7: "\<forall>e0 w0 e1 w1. api_onError example_tenant_api e0 w0 = (Some e1, w1) \<longrightarrow> e1 \<noteq> cluster_no_capacity"
    by (auto simp: example_tenant_api_simps)
  from T h1 have c1: "tenantGroupCapacity (example_workload\<lparr>tenantGroupCapacity := 12\<rparr>)
        = (6 * tenantGroupCapacity example_workload + 4) div 5"
    by blast
  from T example_tenant_api_simps(1)
  have c2: "createTenant_loop example_tenant_api (Suc 0) ''t9'' AFTER_BACKUP [None, None] example_workload 10
        = (case increaseMetaclusterCapacity example_tenant_api (Suc 0) example_workload 10 of
             None \<Rightarrow> None
           | Some (Inl e') \<Rightarrow> Some (Inl e')
           | Some (Inr (s', v2)) \<Rightarrow> createTenant_loop example_tenant_api (Suc 0) ''t9'' AFTER_BACKUP [None] s' v2)"
    by blast
  then have c2': "createTenant_loop example_tenant_api (Suc 0) ''t9'' AFTER_BACKUP [None, None] example_workload 10
        = Some (Inr (recordCreatedTenant ''t9'' AFTER_BACKUP (example_created_entry ''t9'') ''c0''
                       (example_workload\<lparr>tenantGroupCapacity := 12\<rparr>), 12))"
    by (simp add: example_increase example_tenant_api_simps)
  have c3: "createTenant_loop example_tenant_api (Suc 0) ''bad'' AFTER_BACKUP [None, None] example_workload 10
        = Some (Inl (other_error 1))"
    using T example_tenant_api_simps(3) by simp
  from T example_tenant_api_simps(4)
  have c4: "configureTenant_loop example_tenant_api (Suc 0) (Suc (Suc 0)) ''t1'' 1 None AFTER_BACKUP
        example_workload 10
        = (case increaseMetaclusterCapacity example_tenant_api (Suc 0) example_workload 10 of
             None \<Rightarrow> None
           | Some (Inl e') \<Rightarrow> Some (Inl e')
           | Some (Inr (s', x2)) \<Rightarrow> configureTenant_loop example_tenant_api (Suc 0) (Suc 0) ''t1'' 1 None
                AFTER_BACKUP s' x2)"
    by blast
  then have c4': "configureTenant_loop example_tenant_api (Suc 0) (Suc (Suc 0)) ''t1'' 1 None AFTER_BACKUP
        example_workload 10
        = configureTenant_loop example_tenant_api (Suc 0) (Suc 0) ''t1'' 1 None AFTER_BACKUP
            (example_workload\<lparr>tenantGroupCapacity := 12\<rparr>) 12"
    by (simp only: example_increase option.case sum.case prod.case)
  have c5: "configureTenant_loop example_tenant_api (Suc 0) (Suc (Suc 0)) ''bad'' 1 None AFTER_BACKUP
        example_workload 10
        = Some (Inl (other_error 1))"
    using T example_tenant_api_simps(6) by simp
  note T6 = capacity_exhausted_grows_and_retries
    [where api = example_tenant_api and fuel = "Suc 0" and draws = "[''t1'', ''t9'']"
      and ct = AFTER_BACKUP and gs = "[None, None]" and s = example_workload and v = 10,
      THEN conjunct2, THEN conjunct2, THEN conjunct2, THEN conjunct2, THEN conjunct2,
      THEN conjunct1, THEN mp, OF h6]
  have c6: "createTenant example_tenant_api (Suc 0) [''t1'', ''t9''] AFTER_BACKUP [None, None]
        example_workload 10 \<noteq> Some (Inl metacluster_no_capacity)"
    by (rule T6)
  note T7 = capacity_exhausted_grows_and_retries
    [where api = example_tenant_api and fuel = "Suc 0" and draws = "[''t1'']"
      and at = AFTER_BACKUP and g = None and passes = "Suc (Suc 0)" and s = example_workload and v = 10,
      THEN conjunct2, THEN conjunct2, THEN conjunct2, THEN conjunct2, THEN conjunct2,
      THEN conjunct2, THEN mp, OF h7]
  have c7: "configureTenant example_tenant_api (Suc 0) (Suc (Suc 0)) [''t1''] AFTER_BACKUP None
        example_workload 10 \<noteq> Some (Inl cluster_no_capacity)"
    by (rule T7)
  show ?thesis
    using example_increase cap c1 example_tenant_api_simps(1) c2' example_tenant_api_simps(3) c3
      example_tenant_api_simps(4) c4' example_tenant_api_simps(6) c5 c6 c7
    by (intro conjI)
qed

end
